theory Spec2Isabelle
  imports Complex_Main
begin

section \<open>Data model\<close>

text \<open>
  The matchmaking endpoint \<^verbatim>\<open>get_matches\<close> of \<^verbatim>\<open>main.py\<close> reads the documents of the
  \<^verbatim>\<open>profile\<close> collection, scores each against a base pair of sets and returns the
  best-scored ones.

  An \<^verbatim>\<open>ObjectId\<close> is a value of the bson library; the code only compares two of them
  and renders one with \<^verbatim>\<open>str\<close>. It is represented here by that rendering, so that two
  identifiers are equal exactly when their renderings are.
\<close>

datatype ObjectId = Oid (str: string)

text \<open>
  A stored profile is a dictionary with the keys of the schema class \<^verbatim>\<open>Profile\<close> and the
  key \<^verbatim>\<open>_id\<close> the store assigns. The code reads \<^verbatim>\<open>skills\<close> and \<^verbatim>\<open>interests\<close> with
  \<^verbatim>\<open>c.get(key, [])\<close>, so each of the two may be absent (\<open>None\<close>). The keys the matching
  never reads (name, email, headline, ...) are kept together in \<open>rest\<close>.
\<close>

record 'r fields =
  skills :: "string list option"
  interests :: "string list option"
  rest :: 'r

record 'r document = "'r fields" +
  oid :: ObjectId  \<comment> \<open>the key \<^verbatim>\<open>_id\<close>\<close>

text \<open>What \<^verbatim>\<open>serialize_doc\<close> returns: the key \<^verbatim>\<open>_id\<close> is replaced by \<^verbatim>\<open>id\<close>, a string.\<close>

record 'r serialized = "'r fields" +
  id_key :: string  \<comment> \<open>the key \<^verbatim>\<open>id\<close>\<close>

text \<open>An entry of the response: the serialized profile with the key \<^verbatim>\<open>match_score\<close> added.
  The score is a Python float that is always a multiple of one half, which floats
  represent exactly; it is modelled by a rational number.\<close>

record 'r match_entry = "'r serialized" +
  match_score :: rat

text \<open>The request body, class \<^verbatim>\<open>MatchRequest\<close>. The fields \<^verbatim>\<open>skills\<close> and \<^verbatim>\<open>interests\<close>
  are prefixed to keep them apart from the keys of a profile.\<close>

record MatchRequest =
  profile_id :: "string option"
  goals :: "string option"
  req_skills :: "string list option"
  req_interests :: "string list option"
  limit :: int

text \<open>The exception handler of \<^verbatim>\<open>get_matches\<close> turns every exception into an
  \<^verbatim>\<open>HTTPException\<close> with status 400 whose detail is the text of the exception.\<close>

datatype exn = InvalidId string

datatype HTTPException = HTTPException (status_code: nat) (detail: exn)

section \<open>Helpers\<close>

text \<open>\<^verbatim>\<open>d.get(key, [])\<close> on a profile and \<^verbatim>\<open>payload.skills or []\<close> on a request.\<close>

definition or_empty :: "string list option \<Rightarrow> string list" where
  "or_empty v = (case v of None \<Rightarrow> [] | Some xs \<Rightarrow> xs)"

text \<open>\<^verbatim>\<open>find_one({"_id": x})\<close> on the profile collection: the first document with that
  identifier, if there is one.\<close>

definition find_one :: "'r document list \<Rightarrow> ObjectId \<Rightarrow> 'r document option" where
  "find_one profile x = find (\<lambda>d. oid d = x) profile"

text \<open>\<^verbatim>\<open>serialize_doc\<close>: a stored document is never empty and its \<^verbatim>\<open>_id\<close> is an
  \<^verbatim>\<open>ObjectId\<close>, so the function always takes the branch that adds \<^verbatim>\<open>id = str(_id)\<close> and
  deletes \<^verbatim>\<open>_id\<close>; every other key is copied.\<close>

definition serialize_doc :: "'r document \<Rightarrow> 'r serialized" where
  "serialize_doc doc =
     \<lparr>skills = skills doc, interests = interests doc, rest = rest doc,
      id_key = str (oid doc)\<rparr>"

text \<open>\<^verbatim>\<open>serialize_doc(c) | {"match_score": s}\<close>\<close>

definition with_match_score :: "'r serialized \<Rightarrow> rat \<Rightarrow> 'r match_entry" where
  "with_match_score d s =
     \<lparr>skills = skills d, interests = interests d, rest = rest d,
      id_key = id_key d, match_score = s\<rparr>"

text \<open>\<^verbatim>\<open>xs.sort(key=key, reverse=True)\<close>: CPython reverses the list, sorts it stably in
  ascending order of the key and reverses it again, so that elements with equal keys
  keep their original order.\<close>

definition sort_reverse :: "('a \<Rightarrow> rat) \<Rightarrow> 'a list \<Rightarrow> 'a list" where
  "sort_reverse key xs = rev (sort_key key (rev xs))"

text \<open>The slice \<^verbatim>\<open>xs[:n]\<close>: a negative bound counts from the end of the list.\<close>

definition slice_to :: "'a list \<Rightarrow> int \<Rightarrow> 'a list" where
  "slice_to xs n =
     (if n < 0 then take (nat (int (length xs) + n)) xs else take (nat n) xs)"

section \<open>The matching endpoint\<close>

text \<open>Lines 232 to 234: the base profile. An absent or empty \<^verbatim>\<open>profile_id\<close> is falsy and no
  lookup is made; otherwise the string is turned into an \<^verbatim>\<open>ObjectId\<close>, which raises
  \<^verbatim>\<open>InvalidId\<close> when the string is not one, and the profile is looked up. The
  constructor of the bson library is the parameter \<open>ObjectId\<close>.\<close>

definition resolve_base ::
  "(string \<Rightarrow> ObjectId option) \<Rightarrow> 'r document list \<Rightarrow> MatchRequest
     \<Rightarrow> HTTPException + 'r document option" where
  "resolve_base ObjectId profile payload =
     (case profile_id payload of
        None \<Rightarrow> Inr None
      | Some s \<Rightarrow>
          if s = [] then Inr None
          else (case ObjectId s of
                  None \<Rightarrow> Inl (HTTPException 400 (InvalidId s))
                | Some x \<Rightarrow> Inr (find_one profile x)))"

text \<open>Lines 235 to 240: the base sets, from the base profile when there is one and from
  the request otherwise.\<close>

definition base_sets ::
  "'r document option \<Rightarrow> MatchRequest \<Rightarrow> string set \<times> string set" where
  "base_sets base_profile payload =
     (case base_profile of
        Some b \<Rightarrow> (set (or_empty (skills b)), set (or_empty (interests b)))
      | None \<Rightarrow> (set (or_empty (req_skills payload)), set (or_empty (req_interests payload))))"

text \<open>Lines 247 to 252: the score of one candidate.\<close>

definition score :: "string set \<Rightarrow> string set \<Rightarrow> 'r document \<Rightarrow> rat" where
  "score base_skills base_interests c =
     (let skills_set = set (or_empty (skills c));
          interests_set = set (or_empty (interests c));
          shared_interests = card (base_interests \<inter> interests_set);
          complement_skills = card (skills_set - base_skills);
          shared_skills = card (base_skills \<inter> skills_set)
      in 2 * of_nat shared_interests + of_nat shared_skills
           + (1 / 2) * of_nat complement_skills)"

text \<open>Lines 244 to 253: the loop over the candidates, which skips the base profile.\<close>

fun scored_loop ::
  "'r document option \<Rightarrow> string set \<Rightarrow> string set \<Rightarrow> 'r document list
     \<Rightarrow> (rat \<times> 'r document) list" where
  "scored_loop base_profile base_skills base_interests [] = []"
| "scored_loop base_profile base_skills base_interests (c # cs) =
     (if (case base_profile of None \<Rightarrow> False | Some b \<Rightarrow> oid c = oid b)
      then scored_loop base_profile base_skills base_interests cs
      else (score base_skills base_interests c, c)
             # scored_loop base_profile base_skills base_interests cs)"

text \<open>The whole handler. The store is taken to answer, and both reads of the collection,
  \<^verbatim>\<open>find_one\<close> and \<^verbatim>\<open>find({})\<close>, see the same documents \<open>profile\<close>; the one exception
  left is that of the \<^verbatim>\<open>ObjectId\<close> constructor, which the handler turns into status 400.
  The result list stands for the value of the key \<^verbatim>\<open>results\<close> of the response.\<close>

definition get_matches ::
  "(string \<Rightarrow> ObjectId option) \<Rightarrow> 'r document list \<Rightarrow> MatchRequest
     \<Rightarrow> HTTPException + 'r match_entry list" where
  "get_matches ObjectId profile payload =
     (case resolve_base ObjectId profile payload of
        Inl e \<Rightarrow> Inl e
      | Inr base_profile \<Rightarrow>
          (let (base_skills, base_interests) = base_sets base_profile payload;
               candidates = profile;
               scored = scored_loop base_profile base_skills base_interests candidates;
               scored = sort_reverse fst scored;
               top = map (\<lambda>(s, c). with_match_score (serialize_doc c) s)
                         (slice_to scored (limit payload))
           in Inr top))"

text \<open>The bson library is not part of the repository. For evaluating the handler on
  concrete requests, \<open>hex_ObjectId\<close> stands for its constructor on strings, which accepts
  a string of 24 characters that \<^verbatim>\<open>bytes.fromhex\<close> can read: pairs of hexadecimal digits,
  with ASCII whitespace allowed before each pair and at the end. The identifier is
  rendered by the digits of the bytes read, in lower case.\<close>

definition hex_lower :: "char \<Rightarrow> char" where
  "hex_lower c = (case map_of (zip ''ABCDEF'' ''abcdef'') c of None \<Rightarrow> c | Some l \<Rightarrow> l)"

definition is_hex :: "char \<Rightarrow> bool" where
  "is_hex c = (c \<in> set ''0123456789abcdefABCDEF'')"

definition is_space :: "char \<Rightarrow> bool" where
  "is_space c = (c \<in> set [CHR 0x09, CHR 0x0A, CHR 0x0B, CHR 0x0C, CHR 0x0D, CHR 0x20])"

fun fromhex :: "string \<Rightarrow> string option" where
  "fromhex [] = Some []"
| "fromhex [c] = (if is_space c then Some [] else None)"
| "fromhex (c # d # cs) =
     (if is_space c then fromhex (d # cs)
      else if is_hex c \<and> is_hex d
      then (case fromhex cs of None \<Rightarrow> None | Some r \<Rightarrow> Some (hex_lower c # hex_lower d # r))
      else None)"

definition hex_ObjectId :: "string \<Rightarrow> ObjectId option" where
  "hex_ObjectId s =
     (if length s = 24
      then (case fromhex s of None \<Rightarrow> None | Some r \<Rightarrow> Some (Oid r))
      else None)"

section \<open>Sample requests and profiles\<close>

text \<open>Concrete profiles and requests on which the handler is evaluated below.\<close>

definition candidate_X :: "unit document" where
  "candidate_X =
     \<lparr>skills = Some [''python'', ''rust''], interests = Some [''hiking'', ''chess''],
      rest = (), oid = Oid ''0123456789abcdef01234567''\<rparr>"

definition candidate_Y :: "unit document" where
  "candidate_Y =
     \<lparr>skills = Some [''go''], interests = Some [''hiking''],
      rest = (), oid = Oid ''0123456789abcdef01234568''\<rparr>"

definition candidate_Z :: "unit document" where
  "candidate_Z =
     \<lparr>skills = None, interests = Some [''chess''],
      rest = (), oid = Oid ''0123456789abcdef01234569''\<rparr>"

definition candidate_W :: "unit document" where
  "candidate_W =
     \<lparr>skills = Some [], interests = Some [],
      rest = (), oid = Oid ''0123456789abcdef0123456a''\<rparr>"

definition entry_of :: "unit document \<Rightarrow> rat \<Rightarrow> unit match_entry" where
  "entry_of c s =
     \<lparr>skills = skills c, interests = interests c, rest = (),
      id_key = str (oid c), match_score = s\<rparr>"

definition request_A :: MatchRequest where
  "request_A =
     \<lparr>profile_id = None, goals = None, req_skills = Some [''python'', ''go''],
      req_interests = Some [''hiking''], limit = 10\<rparr>"

definition request_bare :: "string option \<Rightarrow> int \<Rightarrow> MatchRequest" where
  "request_bare pid n =
     \<lparr>profile_id = pid, goals = None, req_skills = None, req_interests = None, limit = n\<rparr>"

definition unknown_id :: string where
  "unknown_id = ''ffffffffffffffffffffffff''"

definition id_of_X :: string where
  "id_of_X = ''0123456789ABCDEF01234567''"

section \<open>Auxiliary lemmas\<close>

subsection \<open>The scoring loop\<close>

lemma scored_loop_map_filter:
  "scored_loop bp bs bi cs =
     map (\<lambda>c. (score bs bi c, c))
       (filter (\<lambda>c. \<not> (case bp of None \<Rightarrow> False | Some b \<Rightarrow> oid c = oid b)) cs)"
  by (induction cs) simp_all

lemma scored_loop_None: "scored_loop None bs bi cs = map (\<lambda>c. (score bs bi c, c)) cs"
  by (induction cs) simp_all

lemma length_scored_loop: "length (scored_loop bp bs bi cs) \<le> length cs"
  by (induction cs) auto

lemma length_scored_loop_skip:
  "c \<in> set cs \<Longrightarrow> oid c = oid b \<Longrightarrow> length (scored_loop (Some b) bs bi cs) < length cs"
proof (induction cs)
  case Nil
  then show ?case by simp
next
  case (Cons a cs)
  have "length (scored_loop (Some b) bs bi cs) \<le> length cs"
    by (rule length_scored_loop)
  with Cons show ?case by auto
qed

lemma score_nonneg: "0 \<le> score bs bi c"
  by (simp add: score_def Let_def)

subsection \<open>Sorting and slicing\<close>

lemma set_sort_reverse: "set (sort_reverse key xs) = set xs"
  by (simp add: sort_reverse_def)

lemma length_sort_reverse: "length (sort_reverse key xs) = length xs"
  by (simp add: sort_reverse_def)

lemma sorted_sort_reverse: "sorted_wrt (\<lambda>a b. key b \<le> key a) (sort_reverse key xs)"
proof -
  have "sorted (map key (sort_key key (rev xs)))"
    by (rule sorted_sort_key)
  then have "sorted_wrt (\<lambda>a b. key a \<le> key b) (sort_key key (rev xs))"
    by (simp add: sorted_map)
  then show ?thesis
    by (simp add: sort_reverse_def sorted_wrt_rev)
qed

lemma sort_key_all_equal:
  assumes "\<forall>x\<in>set xs. key x = k"
  shows "sort_key key xs = xs"
proof -
  have "filter (\<lambda>y. key y = k) (sort_key key xs) = filter (\<lambda>y. key y = k) xs"
    by (rule sort_key_stable)
  moreover have "filter (\<lambda>y. key y = k) (sort_key key xs) = sort_key key xs"
    using assms by (intro filter_True) simp
  moreover have "filter (\<lambda>y. key y = k) xs = xs"
    using assms by (intro filter_True) simp
  ultimately show ?thesis by simp
qed

lemma sort_reverse_all_equal:
  assumes "\<forall>x\<in>set xs. key x = k"
  shows "sort_reverse key xs = xs"
proof -
  from assms have "\<forall>x\<in>set (rev xs). key x = k" by simp
  then have "sort_key key (rev xs) = rev xs" by (rule sort_key_all_equal)
  then show ?thesis by (simp add: sort_reverse_def)
qed

lemma set_slice_to: "set (slice_to xs n) \<subseteq> set xs"
  by (auto simp: slice_to_def dest: in_set_takeD)

lemma length_slice_to_nonneg:
  "0 \<le> n \<Longrightarrow> length (slice_to xs n) = min (nat n) (length xs)"
  by (simp add: slice_to_def)

lemma slice_to_neg: "n < 0 \<Longrightarrow> slice_to xs n = take (length xs - nat (- n)) xs"
proof -
  assume "n < 0"
  then have "nat (int (length xs) + n) = length xs - nat (- n)" by linarith
  with \<open>n < 0\<close> show ?thesis by (simp add: slice_to_def)
qed

lemma slice_to_all: "length xs \<le> m \<Longrightarrow> slice_to xs (int m) = xs"
  by (simp add: slice_to_def)

lemma slice_to_zero: "slice_to xs 0 = []"
  by (simp add: slice_to_def)

lemma sorted_wrt_slice_to: "sorted_wrt R xs \<Longrightarrow> sorted_wrt R (slice_to xs n)"
  by (simp add: slice_to_def)

subsection \<open>The handler, unfolded\<close>

lemma get_matches_Inl:
  "resolve_base P profile payload = Inl e \<Longrightarrow> get_matches P profile payload = Inl e"
  by (simp add: get_matches_def)

lemma get_matches_Inr:
  "resolve_base P profile payload = Inr bp \<Longrightarrow>
   get_matches P profile payload =
     Inr (map (\<lambda>(s, c). with_match_score (serialize_doc c) s)
            (slice_to (sort_reverse fst
               (scored_loop bp (fst (base_sets bp payload)) (snd (base_sets bp payload)) profile))
               (limit payload)))"
  by (simp add: get_matches_def Let_def split: prod.splits)

lemma find_one_Some: "find_one profile x = Some b \<Longrightarrow> b \<in> set profile \<and> oid b = x"
  by (auto simp: find_one_def find_Some_iff)

lemma entry_fields:
  "match_score (with_match_score (serialize_doc c) s) = s"
  "skills (with_match_score (serialize_doc c) s) = skills c"
  "interests (with_match_score (serialize_doc c) s) = interests c"
  "id_key (with_match_score (serialize_doc c) s) = str (oid c)"
  by (simp_all add: with_match_score_def serialize_doc_def)

lemma get_matches_cases:
  assumes "get_matches P profile payload = Inr results"
  obtains bp where "resolve_base P profile payload = Inr bp"
    and "results = map (\<lambda>(s, c). with_match_score (serialize_doc c) s)
            (slice_to (sort_reverse fst
               (scored_loop bp (fst (base_sets bp payload)) (snd (base_sets bp payload)) profile))
               (limit payload))"
proof (cases "resolve_base P profile payload")
  case (Inl e)
  then have "get_matches P profile payload = Inl e" by (rule get_matches_Inl)
  with assms show ?thesis by simp
next
  case (Inr bp)
  from get_matches_Inr [OF Inr] assms
  have "results = map (\<lambda>(s, c). with_match_score (serialize_doc c) s)
            (slice_to (sort_reverse fst
               (scored_loop bp (fst (base_sets bp payload)) (snd (base_sets bp payload)) profile))
               (limit payload))"
    by simp
  with Inr show ?thesis by (rule that)
qed

lemma results_entry:
  assumes "get_matches P profile payload = Inr results" and "e \<in> set results"
  shows "\<exists>bp c. resolve_base P profile payload = Inr bp \<and> c \<in> set profile
           \<and> \<not> (case bp of None \<Rightarrow> False | Some b \<Rightarrow> oid c = oid b)
           \<and> e = with_match_score (serialize_doc c)
                   (score (fst (base_sets bp payload)) (snd (base_sets bp payload)) c)"
proof -
  from assms(1) obtain bp where bp: "resolve_base P profile payload = Inr bp"
    and res: "results = map (\<lambda>(s, c). with_match_score (serialize_doc c) s)
            (slice_to (sort_reverse fst
               (scored_loop bp (fst (base_sets bp payload)) (snd (base_sets bp payload)) profile))
               (limit payload))"
    by (rule get_matches_cases)
  define bs where "bs = fst (base_sets bp payload)"
  define bi where "bi = snd (base_sets bp payload)"
  define ranked where "ranked = slice_to (sort_reverse fst (scored_loop bp bs bi profile)) (limit payload)"
  from res have r: "results = map (\<lambda>(s, c). with_match_score (serialize_doc c) s) ranked"
    by (simp add: ranked_def bs_def bi_def)
  from assms(2) have "e \<in> (\<lambda>(s, c). with_match_score (serialize_doc c) s) ` set ranked"
    unfolding r by simp
  then obtain p where p: "p \<in> set ranked"
    and e: "e = (\<lambda>(s, c). with_match_score (serialize_doc c) s) p"
    by (rule imageE)
  obtain s c where sc: "p = (s, c)" by (cases p)
  from e have e': "e = with_match_score (serialize_doc c) s"
    unfolding sc by simp
  have "set ranked \<subseteq> set (sort_reverse fst (scored_loop bp bs bi profile))"
    unfolding ranked_def by (rule set_slice_to)
  with p have "p \<in> set (sort_reverse fst (scored_loop bp bs bi profile))"
    by (rule subsetD [rotated])
  then have "(s, c) \<in> set (scored_loop bp bs bi profile)"
    unfolding sc set_sort_reverse .
  then have "(s, c) \<in> set (map (\<lambda>c. (score bs bi c, c))
       (filter (\<lambda>c. \<not> (case bp of None \<Rightarrow> False | Some b \<Rightarrow> oid c = oid b)) profile))"
    by (simp only: scored_loop_map_filter)
  then have *: "s = score bs bi c" "c \<in> set profile"
    "\<not> (case bp of None \<Rightarrow> False | Some b \<Rightarrow> oid c = oid b)"
    by auto
  have "resolve_base P profile payload = Inr bp \<and> c \<in> set profile
           \<and> \<not> (case bp of None \<Rightarrow> False | Some b \<Rightarrow> oid c = oid b)
           \<and> e = with_match_score (serialize_doc c)
                   (score (fst (base_sets bp payload)) (snd (base_sets bp payload)) c)"
    using bp * e' unfolding bs_def bi_def by (intro conjI) (assumption | simp only:)+
  then show ?thesis by (intro exI [of _ bp] exI [of _ c])
qed

subsection \<open>The sample data, evaluated\<close>

lemma hex_unknown: "hex_ObjectId unknown_id = Some (Oid unknown_id)"
  by (simp add: hex_ObjectId_def hex_lower_def is_hex_def is_space_def unknown_id_def)

lemma hex_id_of_X: "hex_ObjectId id_of_X = Some (oid candidate_X)"
  by (simp add: hex_ObjectId_def hex_lower_def is_hex_def is_space_def id_of_X_def
      candidate_X_def)

lemma hex_xyz: "hex_ObjectId ''xyz'' = None"
  by (simp add: hex_ObjectId_def)

lemma score_X_A: "score {''python'', ''go''} {''hiking''} candidate_X = 7 / 2"
  by (simp add: score_def candidate_X_def or_empty_def)

lemma score_X_empty: "score {} {} candidate_X = 1"
  by (simp add: score_def candidate_X_def or_empty_def)

lemma score_Y_empty: "score {} {} candidate_Y = 1 / 2"
  by (simp add: score_def candidate_Y_def or_empty_def)

lemma entry_of_eq: "with_match_score (serialize_doc c) s = entry_of c s"
  by (simp add: with_match_score_def serialize_doc_def entry_of_def)

lemma base_sets_bare: "base_sets None (request_bare pid n) = ({}, {})"
  by (simp add: base_sets_def request_bare_def or_empty_def)

lemma base_sets_A: "base_sets None request_A = ({''python'', ''go''}, {''hiking''})"
  by (simp add: base_sets_def request_A_def or_empty_def)

lemma resolve_base_no_id: "resolve_base P profile (request_bare None n) = Inr None"
  by (simp add: resolve_base_def request_bare_def)

lemma resolve_base_A: "resolve_base P profile request_A = Inr None"
  by (simp add: resolve_base_def request_A_def)

lemma limit_bare: "limit (request_bare pid n) = n"
  by (simp add: request_bare_def)

lemma limit_A: "limit request_A = 10"
  by (simp add: request_A_def)

lemma score_Y_A: "score {''python'', ''go''} {''hiking''} candidate_Y = 3"
  by (simp add: score_def candidate_Y_def or_empty_def)

lemma eval_A_X: "get_matches hex_ObjectId [candidate_X] request_A = Inr [entry_of candidate_X (7 / 2)]"
  by (simp add: get_matches_Inr [OF resolve_base_A] base_sets_A score_X_A sort_reverse_def
      slice_to_def limit_A entry_of_eq)

lemma eval_A_XY:
  "get_matches hex_ObjectId [candidate_Y, candidate_X] request_A =
     Inr [entry_of candidate_X (7 / 2), entry_of candidate_Y 3]"
  by (simp add: get_matches_Inr [OF resolve_base_A] base_sets_A score_X_A score_Y_A
      sort_reverse_def slice_to_def limit_A entry_of_eq)

lemma eval_neg_XY:
  "get_matches hex_ObjectId [candidate_X, candidate_Y] (request_bare None (- 1)) =
     Inr [entry_of candidate_X 1]"
  by (simp add: get_matches_Inr [OF resolve_base_no_id] base_sets_bare score_X_empty
      score_Y_empty sort_reverse_def slice_to_def limit_bare entry_of_eq)

lemma results_sorted:
  assumes "get_matches P profile payload = Inr results"
  shows "sorted_wrt (\<lambda>a b. match_score b \<le> match_score a) results"
proof -
  from assms obtain bp where
    res: "results = map (\<lambda>(s, c). with_match_score (serialize_doc c) s)
            (slice_to (sort_reverse fst
               (scored_loop bp (fst (base_sets bp payload)) (snd (base_sets bp payload)) profile))
               (limit payload))"
    by (rule get_matches_cases)
  define scored where
    "scored = scored_loop bp (fst (base_sets bp payload)) (snd (base_sets bp payload)) profile"
  have "sorted_wrt (\<lambda>a b. fst b \<le> fst a) (sort_reverse fst scored)"
    by (rule sorted_sort_reverse)
  then have "sorted_wrt (\<lambda>a b. fst b \<le> fst a) (slice_to (sort_reverse fst scored) (limit payload))"
    by (rule sorted_wrt_slice_to)
  then have "sorted_wrt
      (\<lambda>x y. match_score ((\<lambda>(s, c). with_match_score (serialize_doc c) s) y)
           \<le> match_score ((\<lambda>(s, c). with_match_score (serialize_doc c) s) x))
      (slice_to (sort_reverse fst scored) (limit payload))"
  proof (rule sorted_wrt_mono_rel [rotated])
    fix x y :: "rat \<times> 'a document"
    assume "fst y \<le> fst x"
    then show "match_score ((\<lambda>(s, c). with_match_score (serialize_doc c) s) y)
           \<le> match_score ((\<lambda>(s, c). with_match_score (serialize_doc c) s) x)"
      by (cases x, cases y) (simp add: entry_fields)
  qed
  then have "sorted_wrt (\<lambda>a b. match_score b \<le> match_score a)
      (map (\<lambda>(s, c). with_match_score (serialize_doc c) s)
         (slice_to (sort_reverse fst scored) (limit payload)))"
    by (simp only: sorted_wrt_map)
  then show ?thesis unfolding res scored_def .
qed

lemma results_length:
  assumes "get_matches P profile payload = Inr results"
  shows "\<exists>bp. resolve_base P profile payload = Inr bp \<and>
     length results = length (slice_to
        (scored_loop bp (fst (base_sets bp payload)) (snd (base_sets bp payload)) profile)
        (limit payload))"
proof -
  from assms obtain bp where bp: "resolve_base P profile payload = Inr bp" and
    res: "results = map (\<lambda>(s, c). with_match_score (serialize_doc c) s)
            (slice_to (sort_reverse fst
               (scored_loop bp (fst (base_sets bp payload)) (snd (base_sets bp payload)) profile))
               (limit payload))"
    by (rule get_matches_cases)
  have "length results = length (slice_to
        (scored_loop bp (fst (base_sets bp payload)) (snd (base_sets bp payload)) profile)
        (limit payload))"
    unfolding res by (simp add: slice_to_def length_sort_reverse)
  with bp show ?thesis by (intro exI [of _ bp] conjI)
qed

lemma results_nonneg:
  assumes "get_matches P profile payload = Inr results" and "e \<in> set results"
  shows "0 \<le> match_score e"
proof -
  from results_entry [OF assms] obtain bp c where
    "resolve_base P profile payload = Inr bp" and
    e: "e = with_match_score (serialize_doc c)
              (score (fst (base_sets bp payload)) (snd (base_sets bp payload)) c)"
    by (elim exE conjE)
  show ?thesis unfolding e entry_fields by (rule score_nonneg)
qed

lemma length_scored_loop_excluded:
  "length (scored_loop bp bs bi cs) + (if (\<exists>c\<in>set cs. case bp of None \<Rightarrow> False | Some b \<Rightarrow> oid c = oid b) then 1 else 0)
     \<le> length cs"
proof (cases bp)
  case None
  then show ?thesis using length_scored_loop [of None bs bi cs] by simp
next
  case (Some b)
  show ?thesis
  proof (cases "\<exists>c\<in>set cs. oid c = oid b")
    case True
    then obtain c where "c \<in> set cs" "oid c = oid b" by blast
    then have "length (scored_loop (Some b) bs bi cs) < length cs"
      by (rule length_scored_loop_skip)
    with Some True show ?thesis by simp
  next
    case False
    with Some show ?thesis using length_scored_loop [of "Some b" bs bi cs] by simp
  qed
qed

lemma str_inject: "str a = str b \<Longrightarrow> a = b"
  by (cases a, cases b) simp

lemma oid_Y_X: "oid candidate_Y \<noteq> oid candidate_X"
  by (simp add: candidate_X_def candidate_Y_def)

lemma find_one_X: "find_one [candidate_X, candidate_Y] (oid candidate_X) = Some candidate_X"
  by (simp add: find_one_def)

lemma profile_id_bare: "profile_id (request_bare pid n) = pid"
  by (simp add: request_bare_def)

lemma id_of_X_nonempty: "id_of_X \<noteq> []"
  by (simp add: id_of_X_def)

lemma resolve_base_X:
  "resolve_base hex_ObjectId [candidate_X, candidate_Y] (request_bare (Some id_of_X) n)
     = Inr (Some candidate_X)"
  by (simp add: resolve_base_def profile_id_bare id_of_X_nonempty hex_id_of_X find_one_X)

lemma base_sets_X:
  "base_sets (Some candidate_X) payload = ({''python'', ''rust''}, {''hiking'', ''chess''})"
  by (simp add: base_sets_def candidate_X_def or_empty_def)

lemma score_Y_X: "score {''python'', ''rust''} {''hiking'', ''chess''} candidate_Y = 5 / 2"
  by (simp add: score_def candidate_Y_def or_empty_def)

lemma eval_X_XY:
  "get_matches hex_ObjectId [candidate_X, candidate_Y] (request_bare (Some id_of_X) 10) =
     Inr [entry_of candidate_Y (5 / 2)]"
  by (simp add: get_matches_Inr [OF resolve_base_X] base_sets_X oid_Y_X score_Y_X
      sort_reverse_def slice_to_def limit_bare entry_of_eq)

lemma resolve_base_invalid:
  "profile_id payload = Some s \<Longrightarrow> s \<noteq> [] \<Longrightarrow> P s = None \<Longrightarrow>
   resolve_base P profile payload = Inl (HTTPException 400 (InvalidId s))"
  by (simp add: resolve_base_def)

lemma resolve_base_valid:
  "profile_id payload = Some s \<Longrightarrow> s \<noteq> [] \<Longrightarrow> P s = Some x \<Longrightarrow>
   resolve_base P profile payload = Inr (find_one profile x)"
  by (simp add: resolve_base_def)

lemma resolve_base_total:
  assumes "\<forall>s. profile_id payload = Some s \<longrightarrow> s \<noteq> [] \<longrightarrow> P s \<noteq> None"
  shows "\<exists>bp. resolve_base P profile payload = Inr bp"
proof (cases "profile_id payload")
  case None
  then show ?thesis by (simp add: resolve_base_def)
next
  case (Some s)
  show ?thesis
  proof (cases "s = []")
    case True
    with Some show ?thesis by (simp add: resolve_base_def)
  next
    case False
    with Some assms obtain x where "P s = Some x" by auto
    with Some False show ?thesis by (simp add: resolve_base_def)
  qed
qed

lemma base_sets_None:
  "base_sets None payload =
     (set (or_empty (req_skills payload)), set (or_empty (req_interests payload)))"
  by (simp add: base_sets_def)

lemma get_matches_None:
  assumes "resolve_base P profile payload = Inr None"
  shows "get_matches P profile payload =
     Inr (map (\<lambda>(s, c). with_match_score (serialize_doc c) s)
            (slice_to (sort_reverse fst
               (map (\<lambda>c. (score (set (or_empty (req_skills payload)))
                              (set (or_empty (req_interests payload))) c, c)) profile))
               (limit payload)))"
  unfolding get_matches_Inr [OF assms] base_sets_None fst_conv snd_conv scored_loop_None ..

lemma resolve_base_drop_id:
  "resolve_base P profile (payload\<lparr>profile_id := None\<rparr>) = Inr None"
  by (simp add: resolve_base_def)

lemma get_matches_drop_id:
  assumes "resolve_base P profile payload = Inr None"
  shows "get_matches P profile payload = get_matches P profile (payload\<lparr>profile_id := None\<rparr>)"
  unfolding get_matches_None [OF assms] get_matches_None [OF resolve_base_drop_id]
  by simp

lemma length_slice_to_cong: "length xs = length ys \<Longrightarrow> length (slice_to xs n) = length (slice_to ys n)"
  by (simp add: slice_to_def)

lemma xyz_nonempty: "''xyz'' \<noteq> []"
  by simp

lemma unknown_id_nonempty: "unknown_id \<noteq> []"
  by (simp add: unknown_id_def)

lemma profile_id_A_unknown: "profile_id (request_A\<lparr>profile_id := Some unknown_id\<rparr>) = Some unknown_id"
  by simp

lemma find_one_unknown_X: "find_one [candidate_X] (Oid unknown_id) = None"
  by (simp add: find_one_def candidate_X_def unknown_id_def)

lemma find_one_unknown_Y: "find_one [candidate_Y] (Oid unknown_id) = None"
  by (simp add: find_one_def candidate_Y_def unknown_id_def)

lemma eval_bad_id:
  "get_matches hex_ObjectId profile (request_bare (Some ''xyz'') n) =
     Inl (HTTPException 400 (InvalidId ''xyz''))"
  by (rule get_matches_Inl, rule resolve_base_invalid)
     (simp_all add: request_bare_def hex_xyz)

lemma resolve_base_A_unknown:
  "resolve_base hex_ObjectId [candidate_X] (request_A\<lparr>profile_id := Some unknown_id\<rparr>) = Inr None"
  using resolve_base_valid [of "request_A\<lparr>profile_id := Some unknown_id\<rparr>" unknown_id
      hex_ObjectId "Oid unknown_id" "[candidate_X]",
      OF profile_id_A_unknown unknown_id_nonempty hex_unknown]
  by (simp only: find_one_unknown_X)

lemma request_A_drop_id: "request_A\<lparr>profile_id := None\<rparr> = request_A"
  by (simp add: request_A_def)

lemma eval_A_unknown:
  "get_matches hex_ObjectId [candidate_X] (request_A\<lparr>profile_id := Some unknown_id\<rparr>) =
     Inr [entry_of candidate_X (7 / 2)]"
  unfolding get_matches_drop_id [OF resolve_base_A_unknown]
  by (simp add: request_A_drop_id eval_A_X)

lemma or_empty_Nil: "or_empty v = [] \<longleftrightarrow> v = None \<or> v = Some []"
  by (cases v) (simp_all add: or_empty_def)

lemma resolve_base_None_supplied:
  assumes "profile_id payload = Some s" and "s \<noteq> []"
    and "resolve_base P profile payload = Inr None"
  shows "\<exists>x. P s = Some x \<and> find_one profile x = None"
proof (cases "P s")
  case None
  with assms show ?thesis by (simp add: resolve_base_def)
next
  case (Some x)
  with assms have "find_one profile x = None" by (simp add: resolve_base_def)
  with Some show ?thesis by simp
qed

lemma resolve_base_bare_unknown_Y:
  "resolve_base hex_ObjectId [candidate_Y] (request_bare (Some unknown_id) n) = Inr None"
  using resolve_base_valid [of "request_bare (Some unknown_id) n" unknown_id
      hex_ObjectId "Oid unknown_id" "[candidate_Y]",
      OF profile_id_bare unknown_id_nonempty hex_unknown]
  by (simp only: find_one_unknown_Y)

lemma req_bare: "req_skills (request_bare pid n) = None" "req_interests (request_bare pid n) = None"
  by (simp_all add: request_bare_def)

lemma or_empty_None: "or_empty None = []"
  by (simp add: or_empty_def)

lemma eval_bare_unknown_Y:
  "get_matches hex_ObjectId [candidate_Y] (request_bare (Some unknown_id) 10) =
     Inr [entry_of candidate_Y (1 / 2)]"
  by (simp add: get_matches_None [OF resolve_base_bare_unknown_Y] req_bare or_empty_None
      score_Y_empty sort_reverse_def slice_to_def limit_bare entry_of_eq)

lemma sort_reverse_Nil: "sort_reverse key [] = []"
  by (simp add: sort_reverse_def)

lemma slice_to_Nil: "slice_to [] n = []"
  by (simp add: slice_to_def)

lemma resolve_base_limit:
  "resolve_base P profile (payload\<lparr>limit := n\<rparr>) = resolve_base P profile payload"
  by (simp add: resolve_base_def)

lemma base_sets_limit: "base_sets bp (payload\<lparr>limit := n\<rparr>) = base_sets bp payload"
  by (cases bp) (simp_all add: base_sets_def)

lemma bare_no_id_valid:
  "\<forall>s. profile_id (request_bare None n) = Some s \<longrightarrow> s \<noteq> [] \<longrightarrow> P s \<noteq> None"
  by (simp add: profile_id_bare)

lemma eval_two_XY:
  "get_matches hex_ObjectId [candidate_X, candidate_Y] (request_bare None 2) =
     Inr [entry_of candidate_X 1, entry_of candidate_Y (1 / 2)]"
  by (simp add: get_matches_Inr [OF resolve_base_no_id] base_sets_bare score_X_empty
      score_Y_empty sort_reverse_def slice_to_def limit_bare entry_of_eq)

lemma request_bare_limit: "(request_bare pid n)\<lparr>limit := m\<rparr> = request_bare pid m"
  by (simp add: request_bare_def)

lemma limit_bare_neg: "limit (request_bare pid (- 1)) < 0"
  by (simp add: limit_bare)

lemma score_eq:
  "score bs bi c =
     2 * of_nat (card (bi \<inter> set (or_empty (interests c))))
     + of_nat (card (bs \<inter> set (or_empty (skills c))))
     + (1 / 2) * of_nat (card (set (or_empty (skills c)) - bs))"
  by (simp add: score_def Let_def)

lemma or_empty_Some: "or_empty (Some xs) = xs"
  by (simp add: or_empty_def)

lemma card_Int_insert_in:
  assumes "finite S" and "i \<in> B" and "i \<notin> S"
  shows "card (B \<inter> insert i S) = Suc (card (B \<inter> S))"
proof -
  from assms(2) have "B \<inter> insert i S = insert i (B \<inter> S)" by auto
  moreover from assms(1) have "finite (B \<inter> S)" by simp
  moreover from assms(3) have "i \<notin> B \<inter> S" by simp
  ultimately show ?thesis by simp
qed

lemma card_Int_insert_out: "i \<notin> B \<Longrightarrow> B \<inter> insert i S = B \<inter> S"
  by auto

lemma Diff_insert_in: "i \<in> B \<Longrightarrow> insert i S - B = S - B"
  by auto

lemma card_Diff_insert_out:
  assumes "finite S" and "i \<notin> B" and "i \<notin> S"
  shows "card (insert i S - B) = Suc (card (S - B))"
proof -
  from assms(2) have "insert i S - B = insert i (S - B)" by auto
  moreover from assms(1) have "finite (S - B)" by simp
  moreover from assms(3) have "i \<notin> S - B" by simp
  ultimately show ?thesis by simp
qed

lemma score_Z_A: "score {''python'', ''go''} {''hiking''} candidate_Z = 0"
  by (simp add: score_def candidate_Z_def or_empty_def)

lemma Z_fields: "or_empty (skills candidate_Z) = []" "or_empty (interests candidate_Z) = [''chess'']"
  by (simp_all add: candidate_Z_def or_empty_def)

lemma resolve_base_cong:
  "profile_id payload = profile_id payload' \<Longrightarrow>
   resolve_base P profile payload = resolve_base P profile payload'"
  by (simp add: resolve_base_def)

lemma base_sets_cong:
  assumes "set (or_empty (req_skills payload)) = set (or_empty (req_skills payload'))"
    and "set (or_empty (req_interests payload)) = set (or_empty (req_interests payload'))"
  shows "base_sets bp payload = base_sets bp payload'"
  using assms by (cases bp) (simp_all add: base_sets_def)

lemma get_matches_cong:
  assumes "profile_id payload = profile_id payload'" and "limit payload = limit payload'"
    and "set (or_empty (req_skills payload)) = set (or_empty (req_skills payload'))"
    and "set (or_empty (req_interests payload)) = set (or_empty (req_interests payload'))"
  shows "get_matches P profile payload = get_matches P profile payload'"
proof (cases "resolve_base P profile payload")
  case (Inl e)
  then have "resolve_base P profile payload' = Inl e"
    using resolve_base_cong [OF assms(1), of P profile] by simp
  with Inl show ?thesis by (simp add: get_matches_Inl)
next
  case (Inr bp)
  then have r: "resolve_base P profile payload' = Inr bp"
    using resolve_base_cong [OF assms(1), of P profile] by simp
  have b: "base_sets bp payload = base_sets bp payload'"
    using assms(3,4) by (rule base_sets_cong)
  show ?thesis
    unfolding get_matches_Inr [OF Inr] get_matches_Inr [OF r] b assms(2) ..
qed

lemma slice_to_map: "slice_to (map f xs) n = map f (slice_to xs n)"
  by (simp add: slice_to_def take_map)

lemma score_empty_base: "score {} {} c = (1 / 2) * of_nat (card (set (or_empty (skills c))))"
  by (simp add: score_eq)

lemma find_one_unknown_ZW: "find_one [candidate_Z, candidate_W] (Oid unknown_id) = None"
  by (simp add: find_one_def candidate_Z_def candidate_W_def unknown_id_def)

lemma find_one_unknown_YX: "find_one [candidate_Y, candidate_X] (Oid unknown_id) = None"
  by (simp add: find_one_def candidate_Y_def candidate_X_def unknown_id_def)

lemma or_empty_req_bare:
  "or_empty (req_skills (request_bare pid n)) = []"
  "or_empty (req_interests (request_bare pid n)) = []"
  by (simp_all add: req_bare or_empty_None)

lemma no_skills_ZW: "\<forall>c\<in>set [candidate_Z, candidate_W]. or_empty (skills c) = []"
  by (simp add: candidate_Z_def candidate_W_def or_empty_def)

lemma resolve_base_bare_unknown_YX:
  "resolve_base hex_ObjectId [candidate_Y, candidate_X] (request_bare (Some unknown_id) n) = Inr None"
  using resolve_base_valid [of "request_bare (Some unknown_id) n" unknown_id
      hex_ObjectId "Oid unknown_id" "[candidate_Y, candidate_X]",
      OF profile_id_bare unknown_id_nonempty hex_unknown]
  by (simp only: find_one_unknown_YX)

lemma eval_bare_unknown_YX:
  "get_matches hex_ObjectId [candidate_Y, candidate_X] (request_bare (Some unknown_id) 10) =
     Inr [entry_of candidate_X 1, entry_of candidate_Y (1 / 2)]"
  by (simp add: get_matches_None [OF resolve_base_bare_unknown_YX] req_bare or_empty_None
      score_Y_empty score_X_empty sort_reverse_def slice_to_def limit_bare entry_of_eq)

lemma hex_empty: "hex_ObjectId [] = None"
  by (simp add: hex_ObjectId_def)

lemma resolve_base_empty_id:
  "profile_id payload = Some [] \<Longrightarrow> resolve_base P profile payload = Inr None"
  by (simp add: resolve_base_def)

lemma profile_id_A_empty: "profile_id (request_A\<lparr>profile_id := Some []\<rparr>) = Some []"
  by simp

lemma eval_A_empty_id:
  "get_matches hex_ObjectId [candidate_X] (request_A\<lparr>profile_id := Some []\<rparr>) =
     Inr [entry_of candidate_X (7 / 2)]"
  unfolding get_matches_drop_id [OF resolve_base_empty_id [OF profile_id_A_empty]]
  by (simp add: request_A_drop_id eval_A_X)

section \<open>The claims\<close>

subsection \<open>C1: the score of a candidate\<close>

text \<open>
  C1. Every entry the handler returns carries the score
  \<open>2 * shared_interests + 1 * shared_skills + 0.5 * complement_skills\<close>, computed from the
  sets of its own skills and interests and the base sets of the request. In particular
  (scenario A) a candidate with skills python, rust and interests hiking, chess scores
  3.5 against the base skills python, go and the base interest hiking.
\<close>

theorem match_score_formula:
  "(get_matches P profile payload = Inr results \<and> e \<in> set results \<longrightarrow>
      (\<exists>bp. resolve_base P profile payload = Inr bp \<and>
         match_score e =
           2 * of_nat (card (snd (base_sets bp payload) \<inter> set (or_empty (interests e))))
           + 1 * of_nat (card (fst (base_sets bp payload) \<inter> set (or_empty (skills e))))
           + (1 / 2) * of_nat (card (set (or_empty (skills e)) - fst (base_sets bp payload)))))
   \<and> score {''python'', ''go''} {''hiking''} candidate_X = 7 / 2"
proof (intro conjI impI)
  assume a: "get_matches P profile payload = Inr results \<and> e \<in> set results"
  then have g: "get_matches P profile payload = Inr results" and m: "e \<in> set results"
    by simp_all
  from results_entry [OF g m]
  obtain bp c where bp: "resolve_base P profile payload = Inr bp"
    and e: "e = with_match_score (serialize_doc c)
                   (score (fst (base_sets bp payload)) (snd (base_sets bp payload)) c)"
    by (elim exE conjE)
  have "match_score e =
           2 * of_nat (card (snd (base_sets bp payload) \<inter> set (or_empty (interests e))))
           + 1 * of_nat (card (fst (base_sets bp payload) \<inter> set (or_empty (skills e))))
           + (1 / 2) * of_nat (card (set (or_empty (skills e)) - fst (base_sets bp payload)))"
    unfolding e entry_fields by (simp add: score_def Let_def)
  with bp show "\<exists>bp. resolve_base P profile payload = Inr bp \<and>
         match_score e =
           2 * of_nat (card (snd (base_sets bp payload) \<inter> set (or_empty (interests e))))
           + 1 * of_nat (card (fst (base_sets bp payload) \<inter> set (or_empty (skills e))))
           + (1 / 2) * of_nat (card (set (or_empty (skills e)) - fst (base_sets bp payload)))"
    by (intro exI [of _ bp] conjI)
next
  show "score {''python'', ''go''} {''hiking''} candidate_X = 7 / 2"
    by (rule score_X_A)
qed

theorem match_score_formula_witness:
  "get_matches hex_ObjectId [candidate_X] request_A = Inr [entry_of candidate_X (7 / 2)]
   \<and> match_score (entry_of candidate_X (7 / 2)) = 2 * 1 + 1 * 1 + (1 / 2) * 1"
proof -
  let ?e = "entry_of candidate_X (7 / 2)"
  have g: "get_matches hex_ObjectId [candidate_X] request_A = Inr [?e]"
    by (rule eval_A_X)
  have m: "?e \<in> set [?e]" by simp
  have r: "resolve_base hex_ObjectId [candidate_X] request_A = Inr None"
    by (rule resolve_base_A)
  from match_score_formula [of hex_ObjectId "[candidate_X]" request_A "[?e]" ?e]
  have "get_matches hex_ObjectId [candidate_X] request_A = Inr [?e] \<and> ?e \<in> set [?e] \<longrightarrow>
      (\<exists>bp. resolve_base hex_ObjectId [candidate_X] request_A = Inr bp \<and>
         match_score ?e =
           2 * of_nat (card (snd (base_sets bp request_A) \<inter> set (or_empty (interests ?e))))
           + 1 * of_nat (card (fst (base_sets bp request_A) \<inter> set (or_empty (skills ?e))))
           + (1 / 2) * of_nat (card (set (or_empty (skills ?e)) - fst (base_sets bp request_A))))"
    by (rule conjunct1)
  with g m obtain bp where "resolve_base hex_ObjectId [candidate_X] request_A = Inr bp"
    and ms: "match_score ?e =
           2 * of_nat (card (snd (base_sets bp request_A) \<inter> set (or_empty (interests ?e))))
           + 1 * of_nat (card (fst (base_sets bp request_A) \<inter> set (or_empty (skills ?e))))
           + (1 / 2) * of_nat (card (set (or_empty (skills ?e)) - fst (base_sets bp request_A)))"
    by (elim impE exE conjE) (intro conjI)
  with r have bp: "bp = None" by simp
  have i: "card ({''hiking''} \<inter> set (or_empty (interests ?e))) = 1"
    by (simp add: entry_of_def candidate_X_def or_empty_def)
  have s: "card ({''python'', ''go''} \<inter> set (or_empty (skills ?e))) = 1"
    by (simp add: entry_of_def candidate_X_def or_empty_def)
  have c: "card (set (or_empty (skills ?e)) - {''python'', ''go''}) = 1"
    by (simp add: entry_of_def candidate_X_def or_empty_def)
  from ms have "match_score ?e = 2 * 1 + 1 * 1 + (1 / 2) * 1"
    unfolding bp base_sets_A fst_conv snd_conv i s c by simp
  with g show ?thesis by (rule conjI)
qed

subsection \<open>C2: order, length and sign of the result\<close>

text \<open>
  C2. For every candidate pool and every limit that is not negative, the result is sorted
  in descending order of match score, has at most \<open>limit\<close> entries, its length is at most
  \<open>min(limit, |candidates| - (1 if the base profile was excluded else 0))\<close>, and every entry
  carries a non-negative match score.
\<close>

theorem ranked_sorted_bounded:
  assumes "get_matches P profile payload = Inr results" and "0 \<le> limit payload"
  shows "sorted_wrt (\<lambda>a b. match_score b \<le> match_score a) results
       \<and> int (length results) \<le> limit payload
       \<and> (\<exists>bp. resolve_base P profile payload = Inr bp \<and>
            int (length results) \<le>
              min (limit payload)
                  (int (length profile) -
                     (if (\<exists>c\<in>set profile. case bp of None \<Rightarrow> False | Some b \<Rightarrow> oid c = oid b)
                      then 1 else 0)))
       \<and> (\<forall>e\<in>set results. 0 \<le> match_score e)"
proof (intro conjI ballI)
  show "sorted_wrt (\<lambda>a b. match_score b \<le> match_score a) results"
    using assms(1) by (rule results_sorted)
next
  from results_length [OF assms(1)] obtain bp where
    bp: "resolve_base P profile payload = Inr bp" and
    len: "length results = length (slice_to
        (scored_loop bp (fst (base_sets bp payload)) (snd (base_sets bp payload)) profile)
        (limit payload))"
    by (elim exE conjE)
  define scored where
    "scored = scored_loop bp (fst (base_sets bp payload)) (snd (base_sets bp payload)) profile"
  define k :: nat where
    "k = (if (\<exists>c\<in>set profile. case bp of None \<Rightarrow> False | Some b \<Rightarrow> oid c = oid b) then 1 else 0)"
  from len assms(2) have l: "length results = min (nat (limit payload)) (length scored)"
    unfolding scored_def by (simp add: length_slice_to_nonneg)
  have s: "length scored + k \<le> length profile"
    unfolding scored_def k_def by (rule length_scored_loop_excluded)
  from l assms(2) show "int (length results) \<le> limit payload" by linarith
  from l s assms(2) have "int (length results) \<le> min (limit payload) (int (length profile) - int k)"
    by linarith
  moreover have "int k = (if (\<exists>c\<in>set profile. case bp of None \<Rightarrow> False | Some b \<Rightarrow> oid c = oid b) then 1 else 0)"
    unfolding k_def by simp
  ultimately have "int (length results) \<le>
              min (limit payload)
                  (int (length profile) -
                     (if (\<exists>c\<in>set profile. case bp of None \<Rightarrow> False | Some b \<Rightarrow> oid c = oid b)
                      then 1 else 0))"
    by (simp only:)
  with bp show "\<exists>bp. resolve_base P profile payload = Inr bp \<and>
            int (length results) \<le>
              min (limit payload)
                  (int (length profile) -
                     (if (\<exists>c\<in>set profile. case bp of None \<Rightarrow> False | Some b \<Rightarrow> oid c = oid b)
                      then 1 else 0))"
    by (intro exI [of _ bp] conjI)
next
  fix e assume "e \<in> set results"
  with assms(1) show "0 \<le> match_score e" by (rule results_nonneg)
qed

text \<open>On the candidates Y, X and the request of scenario A, with limit 10.\<close>

theorem ranked_sorted_bounded_witness:
  "get_matches hex_ObjectId [candidate_Y, candidate_X] request_A =
     Inr [entry_of candidate_X (7 / 2), entry_of candidate_Y 3]
   \<and> 0 \<le> limit request_A
   \<and> sorted_wrt (\<lambda>a b. match_score b \<le> match_score a)
        [entry_of candidate_X (7 / 2), entry_of candidate_Y 3]
   \<and> int (length [entry_of candidate_X (7 / 2), entry_of candidate_Y 3]) \<le> limit request_A"
proof -
  have l: "0 \<le> limit request_A" by (simp add: limit_A)
  note t = ranked_sorted_bounded [OF eval_A_XY l]
  from t have s: "sorted_wrt (\<lambda>a b. match_score b \<le> match_score a)
        [entry_of candidate_X (7 / 2), entry_of candidate_Y 3]"
    by (rule conjunct1)
  from t have b: "int (length [entry_of candidate_X (7 / 2), entry_of candidate_Y 3]) \<le> limit request_A"
    by (rule conjunct1 [OF conjunct2])
  from eval_A_XY l s b show ?thesis by (intro conjI)
qed

text \<open>For a negative limit the bound fails: with limit \<open>-1\<close> and two candidates the result
  has one entry, which is more than \<open>-1\<close>.\<close>

theorem negative_limit_counterexample:
  "get_matches hex_ObjectId [candidate_X, candidate_Y] (request_bare None (- 1)) =
     Inr [entry_of candidate_X 1]
   \<and> \<not> int (length [entry_of candidate_X 1]) \<le> limit (request_bare None (- 1))"
  by (simp add: eval_neg_XY limit_bare)

subsection \<open>C3: a profile identifier that matches no profile\<close>

text \<open>
  C3. When the \<open>profile_id\<close> of the request is a valid \<^verbatim>\<open>ObjectId\<close> that matches no stored
  profile, the handler does not fail: it answers as it does for the same request without a
  \<open>profile_id\<close>, scoring every candidate against the base sets of the request's own skills
  and interests (empty when omitted).
\<close>

theorem unresolved_id_fallback:
  assumes "profile_id payload = Some s" and "s \<noteq> []" and "P s = Some x"
    and "find_one profile x = None"
  shows "\<exists>results. get_matches P profile payload = Inr results
     \<and> get_matches P profile (payload\<lparr>profile_id := None\<rparr>) = Inr results
     \<and> length results = length (slice_to profile (limit payload))
     \<and> (\<forall>e\<in>set results.
          match_score e =
            2 * of_nat (card (set (or_empty (req_interests payload)) \<inter> set (or_empty (interests e))))
            + 1 * of_nat (card (set (or_empty (req_skills payload)) \<inter> set (or_empty (skills e))))
            + (1 / 2) * of_nat (card (set (or_empty (skills e)) - set (or_empty (req_skills payload)))))"
proof -
  define scored where "scored = sort_reverse fst
               (map (\<lambda>c. (score (set (or_empty (req_skills payload)))
                              (set (or_empty (req_interests payload))) c, c)) profile)"
  define results where "results = map (\<lambda>(s, c). with_match_score (serialize_doc c) s)
            (slice_to scored (limit payload))"
  from assms(1-3) have "resolve_base P profile payload = Inr (find_one profile x)"
    by (rule resolve_base_valid)
  with assms(4) have r: "resolve_base P profile payload = Inr None" by simp
  have g: "get_matches P profile payload = Inr results"
    unfolding results_def scored_def using r by (rule get_matches_None)
  have g': "get_matches P profile (payload\<lparr>profile_id := None\<rparr>) = Inr results"
    using g get_matches_drop_id [OF r] by simp
  have "length scored = length profile"
    unfolding scored_def by (simp add: length_sort_reverse)
  then have "length (slice_to scored (limit payload)) = length (slice_to profile (limit payload))"
    by (rule length_slice_to_cong)
  then have l: "length results = length (slice_to profile (limit payload))"
    unfolding results_def by simp
  have m: "\<forall>e\<in>set results.
          match_score e =
            2 * of_nat (card (set (or_empty (req_interests payload)) \<inter> set (or_empty (interests e))))
            + 1 * of_nat (card (set (or_empty (req_skills payload)) \<inter> set (or_empty (skills e))))
            + (1 / 2) * of_nat (card (set (or_empty (skills e)) - set (or_empty (req_skills payload))))"
  proof
    fix e assume "e \<in> set results"
    from results_entry [OF g this] obtain bp c where
      bp: "resolve_base P profile payload = Inr bp"
      and e: "e = with_match_score (serialize_doc c)
              (score (fst (base_sets bp payload)) (snd (base_sets bp payload)) c)"
      by (elim exE conjE)
    from bp r have "bp = None" by simp
    then have e': "e = with_match_score (serialize_doc c)
              (score (set (or_empty (req_skills payload))) (set (or_empty (req_interests payload))) c)"
      using e by (simp add: base_sets_None)
    show "match_score e =
            2 * of_nat (card (set (or_empty (req_interests payload)) \<inter> set (or_empty (interests e))))
            + 1 * of_nat (card (set (or_empty (req_skills payload)) \<inter> set (or_empty (skills e))))
            + (1 / 2) * of_nat (card (set (or_empty (skills e)) - set (or_empty (req_skills payload))))"
      unfolding e' entry_fields by (simp add: score_def Let_def)
  qed
  from g g' l m show ?thesis by (intro exI [of _ results] conjI)
qed

text \<open>On scenario A with an identifier that no profile has.\<close>

theorem unresolved_id_fallback_witness:
  "profile_id (request_A\<lparr>profile_id := Some unknown_id\<rparr>) = Some unknown_id
   \<and> unknown_id \<noteq> [] \<and> hex_ObjectId unknown_id = Some (Oid unknown_id)
   \<and> find_one [candidate_X] (Oid unknown_id) = None
   \<and> get_matches hex_ObjectId [candidate_X] (request_A\<lparr>profile_id := Some unknown_id\<rparr>) =
       Inr [entry_of candidate_X (7 / 2)]
   \<and> get_matches hex_ObjectId [candidate_X]
        (request_A\<lparr>profile_id := Some unknown_id, profile_id := None\<rparr>) =
       Inr [entry_of candidate_X (7 / 2)]"
proof -
  from unresolved_id_fallback [of "request_A\<lparr>profile_id := Some unknown_id\<rparr>" unknown_id
      hex_ObjectId "Oid unknown_id" "[candidate_X]",
      OF profile_id_A_unknown unknown_id_nonempty hex_unknown find_one_unknown_X]
  obtain results where
    a: "get_matches hex_ObjectId [candidate_X] (request_A\<lparr>profile_id := Some unknown_id\<rparr>) = Inr results"
    and b: "get_matches hex_ObjectId [candidate_X]
        (request_A\<lparr>profile_id := Some unknown_id, profile_id := None\<rparr>) = Inr results"
    by (elim exE conjE)
  from a eval_A_unknown have "results = [entry_of candidate_X (7 / 2)]" by simp
  with b have "get_matches hex_ObjectId [candidate_X]
        (request_A\<lparr>profile_id := Some unknown_id, profile_id := None\<rparr>) =
       Inr [entry_of candidate_X (7 / 2)]"
    by (simp only:)
  with profile_id_A_unknown unknown_id_nonempty hex_unknown find_one_unknown_X eval_A_unknown
  show ?thesis by (intro conjI)
qed

text \<open>As first stated the claim fails twice: a malformed identifier, which matches no profile
  either, makes the handler raise; and with a valid unmatched identifier the base sets are
  those of the request, not empty ones, so that X scores 3.5 where empty base sets give 1.\<close>

theorem unresolved_id_counterexample:
  "profile_id (request_bare (Some ''xyz'') 10) = Some ''xyz''
   \<and> find_one [candidate_X] (Oid ''xyz'') = None
   \<and> get_matches hex_ObjectId [candidate_X] (request_bare (Some ''xyz'') 10) =
       Inl (HTTPException 400 (InvalidId ''xyz''))
   \<and> find_one [candidate_X] (Oid unknown_id) = None
   \<and> get_matches hex_ObjectId [candidate_X] (request_A\<lparr>profile_id := Some unknown_id\<rparr>) =
       Inr [entry_of candidate_X (7 / 2)]
   \<and> score {} {} candidate_X = 1"
proof -
  have "find_one [candidate_X] (Oid ''xyz'') = None"
    by (simp add: find_one_def candidate_X_def)
  with profile_id_bare [of "Some ''xyz''" 10] eval_bad_id [of "[candidate_X]" 10]
    find_one_unknown_X eval_A_unknown score_X_empty
  show ?thesis by (intro conjI)
qed

subsection \<open>C4: the base profile is excluded\<close>

text \<open>
  C4. When the \<open>profile_id\<close> of the request resolves to a stored profile, that profile is
  among the candidates and no entry of the result carries its identifier.
\<close>

theorem base_profile_excluded:
  assumes "profile_id payload = Some s" and "s \<noteq> []" and "P s = Some x"
    and "find_one profile x = Some b" and "get_matches P profile payload = Inr results"
  shows "b \<in> set profile \<and> (\<forall>e\<in>set results. id_key e \<noteq> str (oid b))"
proof (intro conjI ballI)
  from assms(4) show "b \<in> set profile" by (simp add: find_one_Some)
next
  fix e assume m: "e \<in> set results"
  from assms(1-4) have r: "resolve_base P profile payload = Inr (Some b)"
    by (simp add: resolve_base_def)
  from results_entry [OF assms(5) m] obtain bp c where
    bp: "resolve_base P profile payload = Inr bp"
    and skip: "\<not> (case bp of None \<Rightarrow> False | Some b \<Rightarrow> oid c = oid b)"
    and e: "e = with_match_score (serialize_doc c)
              (score (fst (base_sets bp payload)) (snd (base_sets bp payload)) c)"
    by (elim exE conjE)
  from bp r have "bp = Some b" by simp
  with skip have "oid c \<noteq> oid b" by simp
  then have "str (oid c) \<noteq> str (oid b)" using str_inject by blast
  then show "id_key e \<noteq> str (oid b)" unfolding e entry_fields .
qed

text \<open>On the candidates X, Y and a request whose \<open>profile_id\<close> is that of X.\<close>

theorem base_profile_excluded_witness:
  "profile_id (request_bare (Some id_of_X) 10) = Some id_of_X \<and> id_of_X \<noteq> []
   \<and> hex_ObjectId id_of_X = Some (oid candidate_X)
   \<and> find_one [candidate_X, candidate_Y] (oid candidate_X) = Some candidate_X
   \<and> get_matches hex_ObjectId [candidate_X, candidate_Y] (request_bare (Some id_of_X) 10) =
       Inr [entry_of candidate_Y (5 / 2)]
   \<and> id_key (entry_of candidate_Y (5 / 2)) \<noteq> str (oid candidate_X)"
proof -
  have p: "profile_id (request_bare (Some id_of_X) 10) = Some id_of_X"
    by (rule profile_id_bare)
  from base_profile_excluded [OF p id_of_X_nonempty hex_id_of_X find_one_X eval_X_XY]
  have "id_key (entry_of candidate_Y (5 / 2)) \<noteq> str (oid candidate_X)" by simp
  with p id_of_X_nonempty hex_id_of_X find_one_X eval_X_XY show ?thesis by (intro conjI)
qed

subsection \<open>C5: unmatched identifier and no attributes in the request\<close>

text \<open>
  C5. When the \<open>profile_id\<close> of the request is a valid \<^verbatim>\<open>ObjectId\<close> that matches no stored
  profile and the request gives no skills and no interests, every candidate receives half
  the number of its distinct skills as score and the result is in descending order of that
  score. When no candidate has a skill, every score is 0 and the result is the candidates in
  corpus order, cut by the slice \<^verbatim>\<open>scored[:limit]\<close>.
\<close>

theorem unresolved_no_attributes:
  assumes "profile_id payload = Some s" and "s \<noteq> []" and "P s = Some x"
    and "find_one profile x = None"
    and "or_empty (req_skills payload) = []" and "or_empty (req_interests payload) = []"
  shows "\<exists>results. get_matches P profile payload = Inr results
     \<and> (\<forall>e\<in>set results. match_score e = (1 / 2) * of_nat (card (set (or_empty (skills e)))))
     \<and> sorted_wrt (\<lambda>a b. match_score b \<le> match_score a) results
     \<and> ((\<forall>c\<in>set profile. or_empty (skills c) = []) \<longrightarrow>
          results = slice_to (map (\<lambda>c. with_match_score (serialize_doc c) 0) profile)
                      (limit payload))"
proof -
  define results where "results = map (\<lambda>(s, c). with_match_score (serialize_doc c) s)
            (slice_to (sort_reverse fst (map (\<lambda>c. (score {} {} c, c)) profile)) (limit payload))"
  from assms(1-3) have "resolve_base P profile payload = Inr (find_one profile x)"
    by (rule resolve_base_valid)
  with assms(4) have r: "resolve_base P profile payload = Inr None" by simp
  have g: "get_matches P profile payload = Inr results"
    unfolding results_def using get_matches_None [OF r] by (simp add: assms(5,6))
  have m: "\<forall>e\<in>set results. match_score e = (1 / 2) * of_nat (card (set (or_empty (skills e))))"
  proof
    fix e assume "e \<in> set results"
    from results_entry [OF g this] obtain bp c where
      bp: "resolve_base P profile payload = Inr bp"
      and e: "e = with_match_score (serialize_doc c)
              (score (fst (base_sets bp payload)) (snd (base_sets bp payload)) c)"
      by (elim exE conjE)
    from bp r have "bp = None" by simp
    then have e': "e = with_match_score (serialize_doc c) (score {} {} c)"
      using e by (simp add: base_sets_None assms(5,6))
    show "match_score e = (1 / 2) * of_nat (card (set (or_empty (skills e))))"
      unfolding e' entry_fields by (rule score_empty_base)
  qed
  have s: "sorted_wrt (\<lambda>a b. match_score b \<le> match_score a) results"
    using g by (rule results_sorted)
  have o: "(\<forall>c\<in>set profile. or_empty (skills c) = []) \<longrightarrow>
          results = slice_to (map (\<lambda>c. with_match_score (serialize_doc c) 0) profile)
                      (limit payload)"
  proof
    assume z: "\<forall>c\<in>set profile. or_empty (skills c) = []"
    then have A: "map (\<lambda>c. (score {} {} c, c)) profile = map (\<lambda>c. (0, c)) profile"
      by (simp add: score_empty_base)
    have "\<forall>p\<in>set (map (\<lambda>c. (0 :: rat, c)) profile). fst p = 0" by simp
    then have B: "sort_reverse fst (map (\<lambda>c. (0 :: rat, c)) profile) = map (\<lambda>c. (0, c)) profile"
      by (rule sort_reverse_all_equal)
    have "results = map (\<lambda>(s, c). with_match_score (serialize_doc c) s)
            (slice_to (map (\<lambda>c. (0, c)) profile) (limit payload))"
      unfolding results_def A B ..
    then show "results = slice_to (map (\<lambda>c. with_match_score (serialize_doc c) 0) profile)
                      (limit payload)"
      by (simp add: slice_to_map)
  qed
  from g m s o show ?thesis by (intro exI [of _ results] conjI)
qed

text \<open>On two candidates without skills.\<close>

theorem unresolved_no_attributes_witness:
  "profile_id (request_bare (Some unknown_id) 10) = Some unknown_id \<and> unknown_id \<noteq> []
   \<and> hex_ObjectId unknown_id = Some (Oid unknown_id)
   \<and> find_one [candidate_Z, candidate_W] (Oid unknown_id) = None
   \<and> or_empty (req_skills (request_bare (Some unknown_id) 10)) = []
   \<and> or_empty (req_interests (request_bare (Some unknown_id) 10)) = []
   \<and> or_empty (skills candidate_Z) = [] \<and> or_empty (skills candidate_W) = []
   \<and> get_matches hex_ObjectId [candidate_Z, candidate_W] (request_bare (Some unknown_id) 10) =
       Inr [entry_of candidate_Z 0, entry_of candidate_W 0]"
proof -
  from unresolved_no_attributes [of "request_bare (Some unknown_id) 10" unknown_id
      hex_ObjectId "Oid unknown_id" "[candidate_Z, candidate_W]",
      OF profile_id_bare unknown_id_nonempty hex_unknown find_one_unknown_ZW or_empty_req_bare]
  obtain results where
    g: "get_matches hex_ObjectId [candidate_Z, candidate_W] (request_bare (Some unknown_id) 10)
          = Inr results"
    and o: "(\<forall>c\<in>set [candidate_Z, candidate_W]. or_empty (skills c) = []) \<longrightarrow>
          results = slice_to (map (\<lambda>c. with_match_score (serialize_doc c) 0)
                       [candidate_Z, candidate_W])
                      (limit (request_bare (Some unknown_id) 10))"
    by (elim exE conjE)
  from o no_skills_ZW have "results = slice_to (map (\<lambda>c. with_match_score (serialize_doc c) 0)
                       [candidate_Z, candidate_W])
                      (limit (request_bare (Some unknown_id) 10))"
    by (rule mp)
  then have "results = [entry_of candidate_Z 0, entry_of candidate_W 0]"
    by (simp add: limit_bare slice_to_def entry_of_eq)
  with g have e: "get_matches hex_ObjectId [candidate_Z, candidate_W]
      (request_bare (Some unknown_id) 10) = Inr [entry_of candidate_Z 0, entry_of candidate_W 0]"
    by (simp only:)
  have z: "or_empty (skills candidate_Z) = []" and w: "or_empty (skills candidate_W) = []"
    using no_skills_ZW by simp_all
  from profile_id_bare [of "Some unknown_id" 10] unknown_id_nonempty hex_unknown
    find_one_unknown_ZW or_empty_req_bare [of "Some unknown_id" 10] z w e
  show ?thesis by (intro conjI)
qed

text \<open>As first stated the claim fails: the skills of a candidate all count as complementary
  to an empty base, so that Y scores 0.5 and X scores 1 and X, second in the corpus, comes
  first.\<close>

theorem unresolved_no_attributes_counterexample:
  "profile_id (request_bare (Some unknown_id) 10) = Some unknown_id
   \<and> hex_ObjectId unknown_id = Some (Oid unknown_id)
   \<and> find_one [candidate_Y, candidate_X] (Oid unknown_id) = None
   \<and> req_skills (request_bare (Some unknown_id) 10) = None
   \<and> req_interests (request_bare (Some unknown_id) 10) = None
   \<and> get_matches hex_ObjectId [candidate_Y, candidate_X] (request_bare (Some unknown_id) 10) =
       Inr [entry_of candidate_X 1, entry_of candidate_Y (1 / 2)]"
  using profile_id_bare [of "Some unknown_id" 10] hex_unknown find_one_unknown_YX
    req_bare [of "Some unknown_id" 10] eval_bare_unknown_YX
  by (intro conjI)

subsection \<open>C6: what one more interest or skill adds\<close>

text \<open>
  C6. Adding to a candidate an interest of the base that it does not have raises its score
  by exactly 2; adding a skill of the base that it does not have raises it by exactly 1;
  adding a skill that neither the base nor the candidate has raises it by exactly 0.5.
\<close>

theorem score_monotone:
  "(i \<in> bi \<and> i \<notin> set (or_empty (interests c)) \<longrightarrow>
      score bs bi (c\<lparr>interests := Some (or_empty (interests c) @ [i])\<rparr>) = score bs bi c + 2)
   \<and> (k \<in> bs \<and> k \<notin> set (or_empty (skills c)) \<longrightarrow>
      score bs bi (c\<lparr>skills := Some (or_empty (skills c) @ [k])\<rparr>) = score bs bi c + 1)
   \<and> (k \<notin> bs \<and> k \<notin> set (or_empty (skills c)) \<longrightarrow>
      score bs bi (c\<lparr>skills := Some (or_empty (skills c) @ [k])\<rparr>) = score bs bi c + 1 / 2)"
proof (intro conjI impI)
  assume "i \<in> bi \<and> i \<notin> set (or_empty (interests c))"
  then have "card (bi \<inter> insert i (set (or_empty (interests c))))
      = Suc (card (bi \<inter> set (or_empty (interests c))))"
    by (simp add: card_Int_insert_in)
  then show "score bs bi (c\<lparr>interests := Some (or_empty (interests c) @ [i])\<rparr>) = score bs bi c + 2"
    by (simp add: score_eq or_empty_Some)
next
  assume a: "k \<in> bs \<and> k \<notin> set (or_empty (skills c))"
  then have "card (bs \<inter> insert k (set (or_empty (skills c))))
      = Suc (card (bs \<inter> set (or_empty (skills c))))"
    by (simp add: card_Int_insert_in)
  moreover from a have "insert k (set (or_empty (skills c))) - bs = set (or_empty (skills c)) - bs"
    by (simp add: Diff_insert_in)
  ultimately show "score bs bi (c\<lparr>skills := Some (or_empty (skills c) @ [k])\<rparr>) = score bs bi c + 1"
    by (simp add: score_eq or_empty_Some)
next
  assume a: "k \<notin> bs \<and> k \<notin> set (or_empty (skills c))"
  then have "card (insert k (set (or_empty (skills c))) - bs)
      = Suc (card (set (or_empty (skills c)) - bs))"
    by (simp add: card_Diff_insert_out)
  moreover from a have "bs \<inter> insert k (set (or_empty (skills c))) = bs \<inter> set (or_empty (skills c))"
    by (simp add: card_Int_insert_out)
  ultimately show "score bs bi (c\<lparr>skills := Some (or_empty (skills c) @ [k])\<rparr>) = score bs bi c + 1 / 2"
    by (simp add: score_eq or_empty_Some)
qed

text \<open>On the candidate Z against the base of scenario A.\<close>

theorem score_monotone_witness:
  "''hiking'' \<in> {''hiking''} \<and> ''hiking'' \<notin> set (or_empty (interests candidate_Z))
   \<and> score {''python'', ''go''} {''hiking''}
        (candidate_Z\<lparr>interests := Some ([''chess''] @ [''hiking''])\<rparr>) = 0 + 2
   \<and> ''python'' \<in> {''python'', ''go''} \<and> ''python'' \<notin> set (or_empty (skills candidate_Z))
   \<and> score {''python'', ''go''} {''hiking''}
        (candidate_Z\<lparr>skills := Some ([] @ [''python''])\<rparr>) = 0 + 1
   \<and> ''rust'' \<notin> {''python'', ''go''} \<and> ''rust'' \<notin> set (or_empty (skills candidate_Z))
   \<and> score {''python'', ''go''} {''hiking''}
        (candidate_Z\<lparr>skills := Some ([] @ [''rust''])\<rparr>) = 0 + 1 / 2"
proof -
  have h1: "''hiking'' \<in> {''hiking''} \<and> ''hiking'' \<notin> set (or_empty (interests candidate_Z))"
    by (simp add: Z_fields)
  have h2: "''python'' \<in> {''python'', ''go''} \<and> ''python'' \<notin> set (or_empty (skills candidate_Z))"
    by (simp add: Z_fields)
  have h3: "''rust'' \<notin> {''python'', ''go''} \<and> ''rust'' \<notin> set (or_empty (skills candidate_Z))"
    by (simp add: Z_fields)
  note t1 = score_monotone [where i = "''hiking''" and bi = "{''hiking''}" and c = candidate_Z
      and bs = "{''python'', ''go''}" and k = "''python''"]
  note t2 = score_monotone [where i = "''hiking''" and bi = "{''hiking''}" and c = candidate_Z
      and bs = "{''python'', ''go''}" and k = "''rust''"]
  have a: "score {''python'', ''go''} {''hiking''}
        (candidate_Z\<lparr>interests := Some ([''chess''] @ [''hiking''])\<rparr>) = 0 + 2"
    using t1 [THEN conjunct1, THEN mp, OF h1] unfolding Z_fields score_Z_A .
  have b: "score {''python'', ''go''} {''hiking''}
        (candidate_Z\<lparr>skills := Some ([] @ [''python''])\<rparr>) = 0 + 1"
    using t1 [THEN conjunct2, THEN conjunct1, THEN mp, OF h2] unfolding Z_fields score_Z_A .
  have c: "score {''python'', ''go''} {''hiking''}
        (candidate_Z\<lparr>skills := Some ([] @ [''rust''])\<rparr>) = 0 + 1 / 2"
    using t2 [THEN conjunct2, THEN conjunct2, THEN mp, OF h3] unfolding Z_fields score_Z_A .
  from h1 a h2 b h3 c show ?thesis by (intro conjI) (elim conjE, assumption)+
qed

subsection \<open>C7: empty pool and limit zero\<close>

text \<open>
  C7. For every request whose \<open>profile_id\<close> is absent, empty or a valid \<^verbatim>\<open>ObjectId\<close>: when the
  candidate pool is empty the result is the empty sequence and no error is raised, and when
  the limit is 0 the result is the empty sequence whatever the pool.
\<close>

theorem empty_pool_or_zero_limit:
  assumes "\<forall>s. profile_id payload = Some s \<longrightarrow> s \<noteq> [] \<longrightarrow> P s \<noteq> None"
  shows "get_matches P [] payload = Inr []
     \<and> (limit payload = 0 \<longrightarrow> get_matches P profile payload = Inr [])"
proof (intro conjI impI)
  from assms obtain bp :: "'a document option" where "resolve_base P [] payload = Inr bp"
    using resolve_base_total by blast
  then show "get_matches P ([] :: 'a document list) payload = Inr []"
    by (simp add: get_matches_Inr sort_reverse_Nil slice_to_Nil)
next
  assume z: "limit payload = 0"
  from assms obtain bp where "resolve_base P profile payload = Inr bp"
    using resolve_base_total by blast
  then show "get_matches P profile payload = Inr []"
    by (simp add: get_matches_Inr z slice_to_zero)
qed

text \<open>On a request without identifier and with limit 0.\<close>

theorem empty_pool_or_zero_limit_witness:
  "profile_id (request_bare None 0) = None
   \<and> get_matches hex_ObjectId ([] :: unit document list) (request_bare None 0) = Inr []
   \<and> limit (request_bare None 0) = 0
   \<and> get_matches hex_ObjectId [candidate_X, candidate_Y] (request_bare None 0) = Inr []"
proof -
  note t = empty_pool_or_zero_limit [of "request_bare None 0" hex_ObjectId
      "[candidate_X, candidate_Y]", OF bare_no_id_valid]
  have a: "get_matches hex_ObjectId ([] :: unit document list) (request_bare None 0) = Inr []"
    by (rule t [THEN conjunct1])
  have l: "limit (request_bare None 0) = 0" by (rule limit_bare)
  have b: "get_matches hex_ObjectId [candidate_X, candidate_Y] (request_bare None 0) = Inr []"
    by (rule t [THEN conjunct2, THEN mp, OF l])
  from profile_id_bare [of None 0] a l b show ?thesis by (intro conjI)
qed

text \<open>With a malformed identifier the handler raises, on the empty pool and with limit 0 too.\<close>

theorem empty_pool_counterexample:
  "limit (request_bare (Some ''xyz'') 0) = 0
   \<and> get_matches hex_ObjectId ([] :: unit document list) (request_bare (Some ''xyz'') 0) =
       Inl (HTTPException 400 (InvalidId ''xyz''))"
  using limit_bare [of "Some ''xyz''" 0] eval_bad_id [of "[] :: unit document list" 0]
  by (intro conjI)

subsection \<open>C8: duplicates do not count\<close>

text \<open>
  C8. The score depends only on the sets of distinct strings: two candidates whose skills
  and interests have the same sets score alike, removing the duplicates of a candidate
  leaves its score unchanged, two base profiles with the same sets give the same base sets,
  and two requests that differ only in lists with the same sets get the same answer.
\<close>

theorem duplicates_ignored:
  "(set (or_empty (skills c)) = set (or_empty (skills c'))
      \<and> set (or_empty (interests c)) = set (or_empty (interests c'))
      \<longrightarrow> score bs bi c = score bs bi c')
   \<and> score bs bi (c\<lparr>skills := Some (remdups (or_empty (skills c))),
                     interests := Some (remdups (or_empty (interests c)))\<rparr>) = score bs bi c
   \<and> (set (or_empty (skills b)) = set (or_empty (skills b'))
      \<and> set (or_empty (interests b)) = set (or_empty (interests b'))
      \<longrightarrow> base_sets (Some b) payload = base_sets (Some b') payload)
   \<and> (profile_id payload = profile_id payload' \<and> limit payload = limit payload'
      \<and> set (or_empty (req_skills payload)) = set (or_empty (req_skills payload'))
      \<and> set (or_empty (req_interests payload)) = set (or_empty (req_interests payload'))
      \<longrightarrow> get_matches P profile payload = get_matches P profile payload')"
proof (intro conjI impI)
  assume "set (or_empty (skills c)) = set (or_empty (skills c'))
      \<and> set (or_empty (interests c)) = set (or_empty (interests c'))"
  then show "score bs bi c = score bs bi c'"
    by (simp add: score_eq)
next
  show "score bs bi (c\<lparr>skills := Some (remdups (or_empty (skills c))),
                     interests := Some (remdups (or_empty (interests c)))\<rparr>) = score bs bi c"
    by (simp add: score_eq or_empty_Some)
next
  assume "set (or_empty (skills b)) = set (or_empty (skills b'))
      \<and> set (or_empty (interests b)) = set (or_empty (interests b'))"
  then show "base_sets (Some b) payload = base_sets (Some b') payload"
    by (simp add: base_sets_def)
next
  assume "profile_id payload = profile_id payload' \<and> limit payload = limit payload'
      \<and> set (or_empty (req_skills payload)) = set (or_empty (req_skills payload'))
      \<and> set (or_empty (req_interests payload)) = set (or_empty (req_interests payload'))"
  then have "profile_id payload = profile_id payload'" and "limit payload = limit payload'"
    and "set (or_empty (req_skills payload)) = set (or_empty (req_skills payload'))"
    and "set (or_empty (req_interests payload)) = set (or_empty (req_interests payload'))"
    by simp_all
  then show "get_matches P profile payload = get_matches P profile payload'"
    by (rule get_matches_cong)
qed

text \<open>On X with a skill repeated, and on the request of scenario A with skills repeated.\<close>

theorem duplicates_ignored_witness:
  "set (or_empty (skills candidate_X))
     = set (or_empty (skills (candidate_X\<lparr>skills := Some [''python'', ''rust'', ''python'']\<rparr>)))
   \<and> set (or_empty (interests candidate_X))
     = set (or_empty (interests (candidate_X\<lparr>skills := Some [''python'', ''rust'', ''python'']\<rparr>)))
   \<and> score {''python'', ''go''} {''hiking''}
        (candidate_X\<lparr>skills := Some [''python'', ''rust'', ''python'']\<rparr>) = 7 / 2
   \<and> profile_id request_A = profile_id (request_A\<lparr>req_skills := Some [''go'', ''python'', ''go'']\<rparr>)
   \<and> limit request_A = limit (request_A\<lparr>req_skills := Some [''go'', ''python'', ''go'']\<rparr>)
   \<and> set (or_empty (req_skills request_A))
       = set (or_empty (req_skills (request_A\<lparr>req_skills := Some [''go'', ''python'', ''go'']\<rparr>)))
   \<and> set (or_empty (req_interests request_A))
       = set (or_empty (req_interests (request_A\<lparr>req_skills := Some [''go'', ''python'', ''go'']\<rparr>)))
   \<and> get_matches hex_ObjectId [candidate_X]
        (request_A\<lparr>req_skills := Some [''go'', ''python'', ''go'']\<rparr>) =
       Inr [entry_of candidate_X (7 / 2)]"
proof -
  let ?c = "candidate_X\<lparr>skills := Some [''python'', ''rust'', ''python'']\<rparr>"
  let ?r = "request_A\<lparr>req_skills := Some [''go'', ''python'', ''go'']\<rparr>"
  have h1: "set (or_empty (skills candidate_X)) = set (or_empty (skills ?c))
      \<and> set (or_empty (interests candidate_X)) = set (or_empty (interests ?c))"
    by (auto simp add: candidate_X_def or_empty_def)
  have h2: "profile_id request_A = profile_id ?r \<and> limit request_A = limit ?r
      \<and> set (or_empty (req_skills request_A)) = set (or_empty (req_skills ?r))
      \<and> set (or_empty (req_interests request_A)) = set (or_empty (req_interests ?r))"
    by (auto simp add: request_A_def or_empty_def)
  note t = duplicates_ignored [where c = candidate_X and c' = ?c
      and bs = "{''python'', ''go''}" and bi = "{''hiking''}" and b = candidate_X
      and b' = candidate_X and payload = request_A and payload' = ?r and P = hex_ObjectId
      and profile = "[candidate_X]"]
  have a: "score {''python'', ''go''} {''hiking''} ?c = 7 / 2"
    using t [THEN conjunct1, THEN mp, OF h1] score_X_A by simp
  have b: "get_matches hex_ObjectId [candidate_X] ?r = Inr [entry_of candidate_X (7 / 2)]"
    using t [THEN conjunct2, THEN conjunct2, THEN conjunct2, THEN mp, OF h2] eval_A_X by simp
  from h1 a h2 b show ?thesis by (intro conjI) (elim conjE, assumption)+
qed

subsection \<open>C9: a malformed identifier is an error\<close>

text \<open>
  C9. When the \<open>profile_id\<close> of the request is a string that is not empty and is not a valid
  \<^verbatim>\<open>ObjectId\<close>, the handler raises an HTTP error 400. A request that supplies such a
  non-empty \<open>profile_id\<close> runs without a base profile only when the identifier is valid and
  matches no stored profile; the base sets are then those of the request's skills and
  interests, each empty exactly when the field is omitted or an empty list, and the
  candidates are scored against them. An empty \<open>profile_id\<close> is treated as an absent one:
  nothing is looked up, nothing is raised and the base sets are those of the request.
\<close>

theorem invalid_id_raises:
  "(profile_id payload = Some s \<and> s \<noteq> [] \<and> P s = None \<longrightarrow>
      get_matches P profile payload = Inl (HTTPException 400 (InvalidId s)))
   \<and> (profile_id payload = Some s \<and> s \<noteq> [] \<and> resolve_base P profile payload = Inr None \<longrightarrow>
      (\<exists>x. P s = Some x \<and> find_one profile x = None))
   \<and> (profile_id payload = Some s \<and> s \<noteq> [] \<and> P s = Some x \<and> find_one profile x = None \<longrightarrow>
      resolve_base P profile payload = Inr None
      \<and> base_sets (find_one profile x) payload =
          (set (or_empty (req_skills payload)), set (or_empty (req_interests payload)))
      \<and> (fst (base_sets (find_one profile x) payload) = {}
            \<longleftrightarrow> req_skills payload = None \<or> req_skills payload = Some [])
      \<and> (snd (base_sets (find_one profile x) payload) = {}
            \<longleftrightarrow> req_interests payload = None \<or> req_interests payload = Some [])
      \<and> get_matches P profile payload =
          Inr (map (\<lambda>(s, c). with_match_score (serialize_doc c) s)
            (slice_to (sort_reverse fst
               (map (\<lambda>c. (score (set (or_empty (req_skills payload)))
                              (set (or_empty (req_interests payload))) c, c)) profile))
               (limit payload))))
   \<and> (profile_id payload = Some [] \<longrightarrow>
      resolve_base P profile payload = Inr None
      \<and> get_matches P profile payload = get_matches P profile (payload\<lparr>profile_id := None\<rparr>)
      \<and> get_matches P profile payload =
          Inr (map (\<lambda>(s, c). with_match_score (serialize_doc c) s)
            (slice_to (sort_reverse fst
               (map (\<lambda>c. (score (set (or_empty (req_skills payload)))
                              (set (or_empty (req_interests payload))) c, c)) profile))
               (limit payload))))"
proof (intro conjI impI)
  assume "profile_id payload = Some s \<and> s \<noteq> [] \<and> P s = None"
  then have "resolve_base P profile payload = Inl (HTTPException 400 (InvalidId s))"
    by (simp add: resolve_base_invalid)
  then show "get_matches P profile payload = Inl (HTTPException 400 (InvalidId s))"
    by (rule get_matches_Inl)
next
  assume "profile_id payload = Some s \<and> s \<noteq> [] \<and> resolve_base P profile payload = Inr None"
  then have "profile_id payload = Some s" and "s \<noteq> []"
    and "resolve_base P profile payload = Inr None"
    by simp_all
  then show "\<exists>x. P s = Some x \<and> find_one profile x = None"
    by (rule resolve_base_None_supplied)
next
  assume a: "profile_id payload = Some s \<and> s \<noteq> [] \<and> P s = Some x \<and> find_one profile x = None"
  then have f: "find_one profile x = None" by simp
  from a have "resolve_base P profile payload = Inr (find_one profile x)"
    by (simp add: resolve_base_valid)
  with f show r: "resolve_base P profile payload = Inr None" by simp
  show "base_sets (find_one profile x) payload =
          (set (or_empty (req_skills payload)), set (or_empty (req_interests payload)))"
    unfolding f by (rule base_sets_None)
  show "fst (base_sets (find_one profile x) payload) = {}
            \<longleftrightarrow> req_skills payload = None \<or> req_skills payload = Some []"
    unfolding f base_sets_None by (simp add: or_empty_Nil)
  show "snd (base_sets (find_one profile x) payload) = {}
            \<longleftrightarrow> req_interests payload = None \<or> req_interests payload = Some []"
    unfolding f base_sets_None by (simp add: or_empty_Nil)
  from r show "get_matches P profile payload =
          Inr (map (\<lambda>(s, c). with_match_score (serialize_doc c) s)
            (slice_to (sort_reverse fst
               (map (\<lambda>c. (score (set (or_empty (req_skills payload)))
                              (set (or_empty (req_interests payload))) c, c)) profile))
               (limit payload)))"
    by (rule get_matches_None)
next
  assume "profile_id payload = Some []"
  then show e: "resolve_base P profile payload = Inr None"
    by (rule resolve_base_empty_id)
  from e show "get_matches P profile payload = get_matches P profile (payload\<lparr>profile_id := None\<rparr>)"
    by (rule get_matches_drop_id)
  from e show "get_matches P profile payload =
          Inr (map (\<lambda>(s, c). with_match_score (serialize_doc c) s)
            (slice_to (sort_reverse fst
               (map (\<lambda>c. (score (set (or_empty (req_skills payload)))
                              (set (or_empty (req_interests payload))) c, c)) profile))
               (limit payload)))"
    by (rule get_matches_None)
qed

text \<open>On the malformed identifier xyz, on a valid identifier that no profile has, and on
  the empty identifier.\<close>

theorem invalid_id_raises_witness:
  "profile_id (request_bare (Some ''xyz'') 10) = Some ''xyz'' \<and> ''xyz'' \<noteq> []
   \<and> hex_ObjectId ''xyz'' = None
   \<and> get_matches hex_ObjectId [candidate_Y] (request_bare (Some ''xyz'') 10) =
       Inl (HTTPException 400 (InvalidId ''xyz''))
   \<and> profile_id (request_bare (Some unknown_id) 10) = Some unknown_id \<and> unknown_id \<noteq> []
   \<and> hex_ObjectId unknown_id = Some (Oid unknown_id)
   \<and> find_one [candidate_Y] (Oid unknown_id) = None
   \<and> resolve_base hex_ObjectId [candidate_Y] (request_bare (Some unknown_id) 10) = Inr None
   \<and> base_sets (find_one [candidate_Y] (Oid unknown_id)) (request_bare (Some unknown_id) 10)
       = ({}, {})
   \<and> get_matches hex_ObjectId [candidate_Y] (request_bare (Some unknown_id) 10) =
       Inr [entry_of candidate_Y (1 / 2)]
   \<and> profile_id (request_A\<lparr>profile_id := Some []\<rparr>) = Some []
   \<and> resolve_base hex_ObjectId [candidate_X] (request_A\<lparr>profile_id := Some []\<rparr>) = Inr None
   \<and> get_matches hex_ObjectId [candidate_X] (request_A\<lparr>profile_id := Some []\<rparr>) =
       Inr [entry_of candidate_X (7 / 2)]"
proof -
  have p1: "profile_id (request_bare (Some ''xyz'') 10) = Some ''xyz''"
    by (rule profile_id_bare)
  have p2: "profile_id (request_bare (Some unknown_id) 10) = Some unknown_id"
    by (rule profile_id_bare)
  have h1: "profile_id (request_bare (Some ''xyz'') 10) = Some ''xyz'' \<and> ''xyz'' \<noteq> []
      \<and> hex_ObjectId ''xyz'' = None"
    using p1 xyz_nonempty hex_xyz by (intro conjI)
  have h2: "profile_id (request_bare (Some unknown_id) 10) = Some unknown_id \<and> unknown_id \<noteq> []
      \<and> hex_ObjectId unknown_id = Some (Oid unknown_id)
      \<and> find_one [candidate_Y] (Oid unknown_id) = None"
    using p2 unknown_id_nonempty hex_unknown find_one_unknown_Y by (intro conjI)
  note t1 = invalid_id_raises [where payload = "request_bare (Some ''xyz'') 10" and s = "''xyz''"
      and P = hex_ObjectId and profile = "[candidate_Y]" and x = "Oid unknown_id"]
  note t2 = invalid_id_raises [where payload = "request_bare (Some unknown_id) 10"
      and s = unknown_id and P = hex_ObjectId and profile = "[candidate_Y]"
      and x = "Oid unknown_id"]
  have a: "get_matches hex_ObjectId [candidate_Y] (request_bare (Some ''xyz'') 10) =
       Inl (HTTPException 400 (InvalidId ''xyz''))"
    by (rule t1 [THEN conjunct1, THEN mp, OF h1])
  note u = t2 [THEN conjunct2, THEN conjunct2, THEN conjunct1, THEN mp, OF h2]
  note v = invalid_id_raises [where payload = "request_A\<lparr>profile_id := Some []\<rparr>"
      and s = "''xyz''" and P = hex_ObjectId and profile = "[candidate_X]"
      and x = "Oid unknown_id", THEN conjunct2, THEN conjunct2, THEN conjunct2, THEN mp,
      OF profile_id_A_empty]
  have d: "resolve_base hex_ObjectId [candidate_X] (request_A\<lparr>profile_id := Some []\<rparr>) = Inr None"
    by (rule v [THEN conjunct1])
  have "get_matches hex_ObjectId [candidate_X] (request_A\<lparr>profile_id := Some []\<rparr>) =
      get_matches hex_ObjectId [candidate_X]
        (request_A\<lparr>profile_id := Some [], profile_id := None\<rparr>)"
    by (rule v [THEN conjunct2, THEN conjunct1])
  then have e: "get_matches hex_ObjectId [candidate_X] (request_A\<lparr>profile_id := Some []\<rparr>) =
       Inr [entry_of candidate_X (7 / 2)]"
    by (simp add: request_A_drop_id eval_A_X)
  have b: "resolve_base hex_ObjectId [candidate_Y] (request_bare (Some unknown_id) 10) = Inr None"
    by (rule u [THEN conjunct1])
  have c: "base_sets (find_one [candidate_Y] (Oid unknown_id)) (request_bare (Some unknown_id) 10) =
          (set (or_empty (req_skills (request_bare (Some unknown_id) 10))),
           set (or_empty (req_interests (request_bare (Some unknown_id) 10))))"
    by (rule u [THEN conjunct2, THEN conjunct1])
  from c have c': "base_sets (find_one [candidate_Y] (Oid unknown_id)) (request_bare (Some unknown_id) 10)
       = ({}, {})"
    by (simp add: req_bare or_empty_None)
  from p1 xyz_nonempty hex_xyz a p2 unknown_id_nonempty hex_unknown find_one_unknown_Y b c'
    eval_bare_unknown_Y profile_id_A_empty d e
  show ?thesis by (intro conjI)
qed

text \<open>As first stated the claim fails: the empty string is not a valid \<^verbatim>\<open>ObjectId\<close>, yet
  with it as \<open>profile_id\<close> the handler raises nothing and answers scenario A as it does
  without identifier. And a base set is empty also when the request gives the field as an
  empty list, not only when it omits it.\<close>

theorem empty_id_counterexample:
  "profile_id (request_A\<lparr>profile_id := Some []\<rparr>) = Some []
   \<and> hex_ObjectId [] = None
   \<and> get_matches hex_ObjectId [candidate_X] (request_A\<lparr>profile_id := Some []\<rparr>) =
       Inr [entry_of candidate_X (7 / 2)]
   \<and> req_skills ((request_bare (Some unknown_id) 10)\<lparr>req_skills := Some []\<rparr>) = Some []
   \<and> find_one [candidate_Y] (Oid unknown_id) = None
   \<and> fst (base_sets (find_one [candidate_Y] (Oid unknown_id))
             ((request_bare (Some unknown_id) 10)\<lparr>req_skills := Some []\<rparr>)) = {}"
proof -
  have a: "req_skills ((request_bare (Some unknown_id) 10)\<lparr>req_skills := Some []\<rparr>) = Some []"
    by simp
  have b: "fst (base_sets (find_one [candidate_Y] (Oid unknown_id))
             ((request_bare (Some unknown_id) 10)\<lparr>req_skills := Some []\<rparr>)) = {}"
    unfolding find_one_unknown_Y base_sets_None by (simp add: or_empty_Some)
  from profile_id_A_empty hex_empty eval_A_empty_id a find_one_unknown_Y b
  show ?thesis by (intro conjI)
qed

subsection \<open>C10: negative limits\<close>

text \<open>
  C10. For every request with a negative limit \<open>n\<close> whose \<open>profile_id\<close> is absent, empty or a
  valid \<^verbatim>\<open>ObjectId\<close>, the handler does not fail: it returns the complete ranking of the scored
  candidates, which is what the limit \<open>|candidates|\<close> returns, without its last \<open>|n|\<close> entries;
  the result is not empty when more than \<open>|n|\<close> candidates were scored.
\<close>

theorem negative_limit_slice:
  assumes "limit payload < 0"
    and "\<forall>s. profile_id payload = Some s \<longrightarrow> s \<noteq> [] \<longrightarrow> P s \<noteq> None"
  shows "\<exists>bp full. resolve_base P profile payload = Inr bp
     \<and> full = map (\<lambda>(s, c). with_match_score (serialize_doc c) s)
                (sort_reverse fst
                   (scored_loop bp (fst (base_sets bp payload)) (snd (base_sets bp payload)) profile))
     \<and> get_matches P profile (payload\<lparr>limit := int (length profile)\<rparr>) = Inr full
     \<and> get_matches P profile payload = Inr (take (length full - nat (- limit payload)) full)
     \<and> (nat (- limit payload) < length full \<longrightarrow> get_matches P profile payload \<noteq> Inr [])"
proof -
  from assms(2) obtain bp where bp: "resolve_base P profile payload = Inr bp"
    using resolve_base_total by blast
  define ranked where "ranked = sort_reverse fst
      (scored_loop bp (fst (base_sets bp payload)) (snd (base_sets bp payload)) profile)"
  define full where "full = map (\<lambda>(s, c). with_match_score (serialize_doc c) s) ranked"
  have len: "length ranked \<le> length profile"
    unfolding ranked_def by (simp add: length_sort_reverse length_scored_loop)
  have lf: "length full = length ranked" unfolding full_def by simp
  have bp': "resolve_base P profile (payload\<lparr>limit := int (length profile)\<rparr>) = Inr bp"
    using bp by (simp only: resolve_base_limit)
  have "get_matches P profile (payload\<lparr>limit := int (length profile)\<rparr>) =
      Inr (map (\<lambda>(s, c). with_match_score (serialize_doc c) s)
             (slice_to ranked (int (length profile))))"
    unfolding get_matches_Inr [OF bp'] base_sets_limit ranked_def by simp
  then have g1: "get_matches P profile (payload\<lparr>limit := int (length profile)\<rparr>) = Inr full"
    unfolding full_def by (simp only: slice_to_all [OF len])
  have "get_matches P profile payload =
      Inr (map (\<lambda>(s, c). with_match_score (serialize_doc c) s)
             (slice_to ranked (limit payload)))"
    unfolding get_matches_Inr [OF bp] ranked_def ..
  then have g2: "get_matches P profile payload = Inr (take (length full - nat (- limit payload)) full)"
    unfolding full_def slice_to_neg [OF assms(1)] take_map by simp
  have g3: "nat (- limit payload) < length full \<longrightarrow> get_matches P profile payload \<noteq> Inr []"
  proof
    assume "nat (- limit payload) < length full"
    then have "full \<noteq> []" and "0 < length full - nat (- limit payload)" by auto
    then have "take (length full - nat (- limit payload)) full \<noteq> []" by simp
    with g2 show "get_matches P profile payload \<noteq> Inr []" by simp
  qed
  have f: "full = map (\<lambda>(s, c). with_match_score (serialize_doc c) s)
                (sort_reverse fst
                   (scored_loop bp (fst (base_sets bp payload)) (snd (base_sets bp payload)) profile))"
    unfolding full_def ranked_def ..
  from bp f g1 g2 g3 show ?thesis by (intro exI [of _ bp] exI [of _ full] conjI)
qed

text \<open>On two candidates and the limit \<open>-1\<close>.\<close>

theorem negative_limit_slice_witness:
  "limit (request_bare None (- 1)) < 0
   \<and> profile_id (request_bare None (- 1)) = None
   \<and> get_matches hex_ObjectId [candidate_X, candidate_Y] (request_bare None 2) =
       Inr [entry_of candidate_X 1, entry_of candidate_Y (1 / 2)]
   \<and> get_matches hex_ObjectId [candidate_X, candidate_Y] (request_bare None (- 1)) =
       Inr (take (2 - 1) [entry_of candidate_X 1, entry_of candidate_Y (1 / 2)])"
proof -
  from negative_limit_slice [of "request_bare None (- 1)" hex_ObjectId
      "[candidate_X, candidate_Y]", OF limit_bare_neg bare_no_id_valid]
  obtain full where
    g1: "get_matches hex_ObjectId [candidate_X, candidate_Y]
           ((request_bare None (- 1))\<lparr>limit := int (length [candidate_X, candidate_Y])\<rparr>) = Inr full"
    and g2: "get_matches hex_ObjectId [candidate_X, candidate_Y] (request_bare None (- 1)) =
           Inr (take (length full - nat (- limit (request_bare None (- 1)))) full)"
    by (elim exE conjE)
  from g1 have "get_matches hex_ObjectId [candidate_X, candidate_Y] (request_bare None 2) = Inr full"
    by (simp add: request_bare_limit)
  with eval_two_XY have f: "full = [entry_of candidate_X 1, entry_of candidate_Y (1 / 2)]"
    by simp
  from g2 have "get_matches hex_ObjectId [candidate_X, candidate_Y] (request_bare None (- 1)) =
       Inr (take (2 - 1) [entry_of candidate_X 1, entry_of candidate_Y (1 / 2)])"
    unfolding f limit_bare by simp
  with limit_bare_neg [of None] profile_id_bare [of None "- 1"] eval_two_XY
  show ?thesis by (intro conjI)
qed

text \<open>With a malformed identifier the handler raises, whatever the limit.\<close>

theorem negative_limit_slice_counterexample:
  "limit (request_bare (Some ''xyz'') (- 1)) < 0
   \<and> get_matches hex_ObjectId [candidate_X, candidate_Y] (request_bare (Some ''xyz'') (- 1)) =
       Inl (HTTPException 400 (InvalidId ''xyz''))"
  using limit_bare_neg [of "Some ''xyz''"] eval_bad_id [of "[candidate_X, candidate_Y]" "- 1"]
  by (intro conjI)

end
